theory Spec2Isabelle
  imports Complex_Main "HOL-Library.Log_Nat"
begin

section \<open>Python values\<close>

text \<open>
  A Python \<open>str\<close> is a sequence of Unicode code points, so a text is a list of
  code points and \<open>length\<close> counts what Python's \<open>len\<close> counts. \<open>cps\<close> turns an
  ASCII literal into its code points; the accented letters of the source's literals
  are written by code point (U+00E7 is 231, U+00C7 is 199, U+00F3 is 243,
  U+00EA is 234).
\<close>

type_synonym ustr = "nat list"

definition cps :: "string \<Rightarrow> ustr" where
  "cps s = map of_char s"

text \<open>
  The values that \<open>request.get_json()\<close> yields and that \<open>jsonify\<close> takes. A float is
  the rational it denotes, or one of the non-finite values. A dict is its list of items in
  insertion order; its keys are distinct, so reading a key is \<open>map_of\<close>.
\<close>

datatype float64 = Finite rat | Infinite bool | NaN

datatype pyval =
    PNone
  | PBool bool
  | PInt int
  | PFloat float64
  | PStr ustr
  | PList "pyval list"
  | PDict "(pyval \<times> pyval) list"

text \<open>
  The values of a worksheet's cells as \<open>get_all_records\<close> returns them: a cell that
  reads as a number is an \<open>int\<close> or a \<open>float\<close>, any other cell is a \<open>str\<close>.
\<close>

datatype cell = CStr ustr | CInt int | CFloat float64

fun cell_val :: "cell \<Rightarrow> pyval" where
  "cell_val (CStr s) = PStr s"
| "cell_val (CInt i) = PInt i"
| "cell_val (CFloat x) = PFloat x"

text \<open>Truth value testing, as \<open>not x\<close> applies it.\<close>

fun truthy :: "pyval \<Rightarrow> bool" where
  "truthy PNone = False"
| "truthy (PBool b) = b"
| "truthy (PInt i) = (i \<noteq> 0)"
| "truthy (PFloat (Finite r)) = (r \<noteq> 0)"
| "truthy (PFloat (Infinite s)) = True"
| "truthy (PFloat NaN) = True"
| "truthy (PStr s) = (s \<noteq> [])"
| "truthy (PList xs) = (xs \<noteq> [])"
| "truthy (PDict kvs) = (kvs \<noteq> [])"

text \<open>
  The exceptions the handlers can meet, and the services of the Python runtime that the
  source calls and that are defined outside the repository. They are parameters of the
  model: the Unicode upper-case mapping of a code point outside ASCII, \<open>str.lower\<close> of
  a text that has a code point outside ASCII, \<open>str()\<close> of a value that is not a
  \<open>str\<close>, and the message \<open>str(e)\<close> of an exception.
\<close>

datatype py_exn = TypeError | KeyError | APIError

record py_runtime =
  upper_tbl :: "nat \<Rightarrow> ustr"
  lower_ext :: "ustr \<Rightarrow> ustr"
  str_other :: "pyval \<Rightarrow> ustr"
  exn_msg :: "py_exn \<Rightarrow> ustr"

section \<open>String operations\<close>

definition is_ascii :: "nat \<Rightarrow> bool" where
  "is_ascii c = (c < 128)"

text \<open>\<open>str.upper\<close> maps each code point on its own; one code point can become several.\<close>

definition upper_cp :: "py_runtime \<Rightarrow> nat \<Rightarrow> ustr" where
  "upper_cp rt c =
     (if is_ascii c then [if 97 \<le> c \<and> c \<le> 122 then c - 32 else c]
      else upper_tbl rt c)"

definition upper :: "py_runtime \<Rightarrow> ustr \<Rightarrow> ustr" where
  "upper rt s = concat (map (upper_cp rt) s)"

text \<open>
  \<open>str.lower\<close> depends on the context of a capital sigma, so outside ASCII the
  whole text goes to the runtime.
\<close>

definition lower :: "py_runtime \<Rightarrow> ustr \<Rightarrow> ustr" where
  "lower rt s =
     (if list_all is_ascii s then map (\<lambda>c. if 65 \<le> c \<and> c \<le> 90 then c + 32 else c) s
      else lower_ext rt s)"

text \<open>The code points that \<open>str.strip()\<close> removes from both ends.\<close>

definition is_space :: "nat \<Rightarrow> bool" where
  "is_space c =
     ((9 \<le> c \<and> c \<le> 13) \<or> (28 \<le> c \<and> c \<le> 32) \<or> c = 133 \<or> c = 160 \<or> c = 5760
      \<or> (8192 \<le> c \<and> c \<le> 8202) \<or> c = 8232 \<or> c = 8233 \<or> c = 8239 \<or> c = 8287
      \<or> c = 12288)"

definition strip :: "ustr \<Rightarrow> ustr" where
  "strip s = rev (dropWhile is_space (rev (dropWhile is_space s)))"

fun startswith :: "ustr \<Rightarrow> ustr \<Rightarrow> bool" where
  "startswith s [] = True"
| "startswith [] (p # ps) = False"
| "startswith (c # cs) (p # ps) = (c = p \<and> startswith cs ps)"

text \<open>\<open>w in s\<close> for two texts: \<open>w\<close> occurs in \<open>s\<close> as a contiguous run.\<close>

fun contains :: "ustr \<Rightarrow> ustr \<Rightarrow> bool" where
  "contains [] w = (w = [])"
| "contains (c # cs) w = (startswith (c # cs) w \<or> contains cs w)"

text \<open>\<open>str(x)\<close>: the identity on a \<open>str\<close>.\<close>

definition py_str :: "py_runtime \<Rightarrow> pyval \<Rightarrow> ustr" where
  "py_str rt v = (case v of PStr s \<Rightarrow> s | _ \<Rightarrow> str_other rt v)"

section \<open>The classifier\<close>

definition Casa :: ustr where "Casa = cps ''Casa''"
definition Apartamento :: ustr where "Apartamento = cps ''Apartamento''"
definition Terreno :: ustr where "Terreno = cps ''Terreno''"
definition Comercial :: ustr where "Comercial = cps ''Comercial''"
definition Lancamento :: ustr where "Lancamento = cps ''Lan'' @ [231] @ cps ''amento''"
definition Outros :: ustr where "Outros = cps ''Outros''"
definition Indefinido :: ustr where "Indefinido = cps ''Indefinido''"

text \<open>
  The rules of \<open>identify_property_type\<close> on the normalised reference, shared by the two
  copies of the function: the prefix rules, the two campaign names, then the keywords.
\<close>

definition classify_ref :: "ustr \<Rightarrow> ustr" where
  "classify_ref ref =
     (if startswith ref (cps ''CA'') then Casa
      else if startswith ref (cps ''AP'') then Apartamento
      else if startswith ref (cps ''TR'') then Terreno
      else if startswith ref (cps ''CO'') then Comercial
      else if ref \<in> set [cps ''WIND OCEANICA'', cps ''TRESOR CAMBOINHAS''] then Lancamento
      else if contains ref (cps ''CASA'') then Casa
      else if list_ex (contains ref) [cps ''APARTAMENTO'', cps ''APT''] then Apartamento
      else if contains ref (cps ''TERRENO'') then Terreno
      else if list_ex (contains ref) [cps ''COMERCIAL'', cps ''LOJA'', cps ''SALA'']
        then Comercial
      else if list_ex (contains ref)
          [cps ''LAN'' @ [199] @ cps ''AMENTO'', cps ''LANCAMENTO''] then Lancamento
      else Outros)"

text \<open>\<open>identify_property_type\<close> of \<open>webhook_api.py\<close>: the guard is \<open>not reference\<close>.\<close>

definition identify_property_type :: "py_runtime \<Rightarrow> pyval \<Rightarrow> ustr" where
  "identify_property_type rt reference =
     (if \<not> truthy reference then Indefinido
      else classify_ref (strip (upper rt (py_str rt reference))))"

text \<open>
  \<open>identify_property_type\<close> of \<open>dashboard_streamlit.py\<close>: the guard is
  \<open>pd.isna(reference)\<close>. The argument is a value of a data frame's column: a cell, or
  \<open>None\<close>. The guard holds of \<open>None\<close> and of a NaN float, and of no \<open>str\<close>.
\<close>

definition isna :: "cell option \<Rightarrow> bool" where
  "isna v = (case v of None \<Rightarrow> True | Some c \<Rightarrow> c = CFloat NaN)"

definition identify_property_type_dashboard :: "py_runtime \<Rightarrow> cell option \<Rightarrow> ustr" where
  "identify_property_type_dashboard rt reference =
     (if isna reference then Indefinido
      else case reference of
          None \<Rightarrow> Indefinido
        | Some c \<Rightarrow> classify_ref (strip (upper rt (py_str rt (cell_val c)))))"

section \<open>Clock, identifiers and the worksheet\<close>

text \<open>
  A reading of the clock in America/Sao_Paulo, as \<open>datetime.now(tz)\<close> returns it.
  \<open>strftime\<close> writes the day, month, hour, minute and second on two digits and the
  year on four.
\<close>

record datetime =
  year :: nat
  month :: nat
  day :: nat
  hour :: nat
  minute :: nat
  second :: nat

definition pad2 :: "nat \<Rightarrow> ustr" where
  "pad2 n = [48 + n div 10 mod 10, 48 + n mod 10]"

definition pad4 :: "nat \<Rightarrow> ustr" where
  "pad4 n = [48 + n div 1000 mod 10, 48 + n div 100 mod 10, 48 + n div 10 mod 10, 48 + n mod 10]"

text \<open>\<open>format_timestamp\<close>: \<open>now.strftime("%d/%m/%Y %H:%M:%S")\<close>.\<close>

definition format_timestamp :: "datetime \<Rightarrow> ustr" where
  "format_timestamp now =
     pad2 (day now) @ cps ''/'' @ pad2 (month now) @ cps ''/'' @ pad4 (year now) @ cps '' ''
     @ pad2 (hour now) @ cps '':'' @ pad2 (minute now) @ cps '':'' @ pad2 (second now)"

text \<open>
  \<open>generate_id\<close> reads the clock and draws four characters of the alphabet;
  the four draws of \<open>random.choices\<close> are given as indices.
\<close>

definition alphabet :: ustr where
  "alphabet = cps ''ABCDEFGHIJKLMNOPQRSTUVWXYZ0123456789''"

definition generate_id :: "datetime \<Rightarrow> nat \<times> nat \<times> nat \<times> nat \<Rightarrow> ustr" where
  "generate_id now draws =
     (case draws of (a, b, c, d) \<Rightarrow>
        cps ''IMV_''
        @ pad4 (year now) @ pad2 (month now) @ pad2 (day now)
        @ pad2 (hour now) @ pad2 (minute now) @ pad2 (second now)
        @ cps ''_'' @ map (\<lambda>i. alphabet ! (i mod 36)) [a, b, c, d])"

text \<open>
  The spreadsheet: whether the client reaches it, and its worksheets by title, each a list
  of rows. A row is the list of values handed to \<open>append_row\<close>.
\<close>

type_synonym row = "pyval list"

record spreadsheet =
  reachable :: bool
  tabs :: "(ustr \<times> row list) list"

definition headers :: "ustr list" where
  "headers =
     [cps ''Data/Hora'', cps ''Nome'', cps ''Telefone'',
      cps ''Im'' @ [243] @ cps ''vel/Refer'' @ [234] @ cps ''ncia'',
      cps ''Interesse Visita'', cps ''Resumo Conversa'', cps ''Origem'', cps ''ID'',
      cps ''Status'', cps ''Tipo Im'' @ [243] @ cps ''vel'']"

definition worksheet_names :: "ustr list" where
  "worksheet_names = [cps ''Leads_Todos_Imoveis'', cps ''Leads_Lancamentos'', cps ''Sheet1'']"

text \<open>
  \<open>get_worksheet\<close>: the first of the three titles that exists; when none does, a new
  worksheet with the header row (\<open>setup_headers\<close>); \<open>None\<close> when the spreadsheet
  cannot be reached.
\<close>

definition get_worksheet :: "spreadsheet \<Rightarrow> ustr option \<times> spreadsheet" where
  "get_worksheet sp =
     (if \<not> reachable sp then (None, sp)
      else case find (\<lambda>name. map_of (tabs sp) name \<noteq> None) worksheet_names of
          Some name \<Rightarrow> (Some name, sp)
        | None \<Rightarrow>
            (Some (cps ''Leads_Todos_Imoveis''),
             sp\<lparr>tabs := tabs sp @ [(cps ''Leads_Todos_Imoveis'', [map PStr headers])]\<rparr>))"

definition append_row :: "ustr \<Rightarrow> row \<Rightarrow> spreadsheet \<Rightarrow> spreadsheet" where
  "append_row ws r sp =
     sp\<lparr>tabs := map (\<lambda>(title, rows). (title, if title = ws then rows @ [r] else rows)) (tabs sp)\<rparr>"

definition rows_of :: "spreadsheet \<Rightarrow> ustr \<Rightarrow> row list" where
  "rows_of sp ws = (case map_of (tabs sp) ws of None \<Rightarrow> [] | Some rows \<Rightarrow> rows)"

section \<open>Ingestion\<close>

text \<open>
  What a handler reads besides the payload and the spreadsheet: the clock at
  \<open>format_timestamp()\<close>, the clock and the draws at \<open>generate_id()\<close>, and whether
  \<open>append_row\<close> raises.
\<close>

record env =
  clock_row :: datetime
  clock_id :: datetime
  draws :: "nat \<times> nat \<times> nat \<times> nat"
  append_raises :: bool

text \<open>The HTTP status and the dict handed to \<open>jsonify\<close>, its items in source order.\<close>

datatype response = Response (status: nat) (body: "(ustr \<times> pyval) list")

definition lookup :: "(ustr \<times> pyval) list \<Rightarrow> ustr \<Rightarrow> pyval option" where
  "lookup kvs k = map_of kvs k"

text \<open>
  \<open>field in data\<close> and \<open>data[field]\<close> for a text \<open>field\<close>. On a dict they test and
  read the key. On a list or a text \<open>in\<close> is membership, and indexing by a text raises;
  on any other value \<open>in\<close> raises.
\<close>

fun has_key :: "pyval \<Rightarrow> ustr \<Rightarrow> py_exn + bool" where
  "has_key (PDict kvs) field = Inr (map_of kvs (PStr field) \<noteq> None)"
| "has_key (PList xs) field = Inr (PStr field \<in> set xs)"
| "has_key (PStr s) field = Inr (contains s field)"
| "has_key v field = Inl TypeError"

fun get_item :: "pyval \<Rightarrow> ustr \<Rightarrow> py_exn + pyval" where
  "get_item (PDict kvs) field =
     (case map_of kvs (PStr field) of None \<Rightarrow> Inl KeyError | Some v \<Rightarrow> Inr v)"
| "get_item v field = Inl TypeError"

text \<open>
  The validation loop: \<open>Inr (Some field)\<close> at the first field with
  \<open>field not in data or not data[field]\<close>, \<open>Inr None\<close> when the loop ends.
\<close>

fun check_required :: "pyval \<Rightarrow> ustr list \<Rightarrow> py_exn + ustr option" where
  "check_required data [] = Inr None"
| "check_required data (field # rest) =
     (case has_key data field of
        Inl e \<Rightarrow> Inl e
      | Inr False \<Rightarrow> Inr (Some field)
      | Inr True \<Rightarrow>
          (case get_item data field of
             Inl e \<Rightarrow> Inl e
           | Inr v \<Rightarrow> if \<not> truthy v then Inr (Some field) else check_required data rest))"

text \<open>
  A required field is missing or empty in a payload object when the key is absent or its
  value is falsy (\<open>None\<close>, \<open>False\<close>, zero, an empty text, list or dict).
\<close>

definition missing_or_empty :: "(pyval \<times> pyval) list \<Rightarrow> ustr \<Rightarrow> bool" where
  "missing_or_empty kvs field =
     (case map_of kvs (PStr field) of None \<Rightarrow> True | Some v \<Rightarrow> \<not> truthy v)"

definition then_do :: "py_exn + 'a \<Rightarrow> ('a \<Rightarrow> py_exn + 'b) \<Rightarrow> py_exn + 'b" where
  "then_do r f = (case r of Inl e \<Rightarrow> Inl e | Inr x \<Rightarrow> f x)"

definition client_error :: "ustr \<Rightarrow> response" where
  "client_error msg = Response 400 [(cps ''status'', PInt 400), (cps ''error'', PStr msg)]"

definition server_error :: "ustr \<Rightarrow> response" where
  "server_error msg = Response 500 [(cps ''status'', PInt 500), (cps ''error'', PStr msg)]"

definition missing_field_msg :: "ustr \<Rightarrow> ustr" where
  "missing_field_msg field = cps ''Campo obrigat'' @ [243] @ cps ''rio ausente: '' @ field"

definition no_worksheet_msg :: ustr where
  "no_worksheet_msg = cps ''Erro ao acessar planilha''"

definition Novo :: ustr where "Novo = cps ''Novo''"

definition valid_launches :: "ustr list" where
  "valid_launches = [cps ''Wind Oceanica'', cps ''Tresor Camboinhas'']"

definition invalid_launch_msg :: ustr where
  "invalid_launch_msg =
     cps ''Lan'' @ [231] @ cps ''amento deve ser: Wind Oceanica ou Tresor Camboinhas''"

definition lancamento_fields :: "ustr list" where
  "lancamento_fields =
     [cps ''user_name'', cps ''user_phone'', cps ''lancamento'', cps ''visit_interest'',
      cps ''summary'']"

definition imovel_fields :: "ustr list" where
  "imovel_fields =
     [cps ''user_name'', cps ''user_phone'', cps ''imovel_referencia'', cps ''visit_interest'',
      cps ''summary'']"

text \<open>The ten values of \<open>row_data\<close> in \<open>captura_lancamento\<close>.\<close>

definition lancamento_row :: "env \<Rightarrow> pyval \<Rightarrow> py_exn + row" where
  "lancamento_row ev data =
     then_do (get_item data (cps ''user_name'')) (\<lambda>name.
     then_do (get_item data (cps ''user_phone'')) (\<lambda>phone.
     then_do (get_item data (cps ''lancamento'')) (\<lambda>launch.
     then_do (get_item data (cps ''visit_interest'')) (\<lambda>interest.
     then_do (get_item data (cps ''summary'')) (\<lambda>summary.
       Inr [PStr (format_timestamp (clock_row ev)), name, phone, launch, interest, summary,
            PStr (cps ''IA Gabriela - Lan'' @ [231] @ cps ''amento''),
            PStr (generate_id (clock_id ev) (draws ev)),
            PStr Novo,
            PStr Lancamento])))))"

text \<open>\<open>captura_lancamento\<close>: the response and the spreadsheet after the call.\<close>

definition captura_lancamento ::
  "py_runtime \<Rightarrow> env \<Rightarrow> pyval \<Rightarrow> spreadsheet \<Rightarrow> response \<times> spreadsheet" where
  "captura_lancamento rt ev data sp =
     (case check_required data lancamento_fields of
        Inl e \<Rightarrow> (server_error (exn_msg rt e), sp)
      | Inr (Some field) \<Rightarrow> (client_error (missing_field_msg field), sp)
      | Inr None \<Rightarrow>
          (case get_item data (cps ''lancamento'') of
             Inl e \<Rightarrow> (server_error (exn_msg rt e), sp)
           | Inr launch \<Rightarrow>
               if launch \<notin> set (map PStr valid_launches)
               then (client_error invalid_launch_msg, sp)
               else
                 (case get_worksheet sp of
                    (None, sp1) \<Rightarrow> (server_error no_worksheet_msg, sp1)
                  | (Some ws, sp1) \<Rightarrow>
                      (case lancamento_row ev data of
                         Inl e \<Rightarrow> (server_error (exn_msg rt e), sp1)
                       | Inr row_data \<Rightarrow>
                           if append_raises ev then (server_error (exn_msg rt APIError), sp1)
                           else
                             (Response 200
                                [(cps ''status'', PInt 200),
                                 (cps ''message'',
                                  PStr (cps ''Lan'' @ [231] @ cps ''amento capturado com sucesso'')),
                                 (cps ''lead_id'', row_data ! 7),
                                 (cps ''lancamento'', launch),
                                 (cps ''timestamp'', row_data ! 0)],
                              append_row ws row_data sp1)))))"

text \<open>The ten values of \<open>row_data\<close> in \<open>captura_imovel_geral\<close>.\<close>

definition imovel_row :: "env \<Rightarrow> pyval \<Rightarrow> ustr \<Rightarrow> py_exn + row" where
  "imovel_row ev data property_type =
     then_do (get_item data (cps ''user_name'')) (\<lambda>name.
     then_do (get_item data (cps ''user_phone'')) (\<lambda>phone.
     then_do (get_item data (cps ''imovel_referencia'')) (\<lambda>reference.
     then_do (get_item data (cps ''visit_interest'')) (\<lambda>interest.
     then_do (get_item data (cps ''summary'')) (\<lambda>summary.
       Inr [PStr (format_timestamp (clock_row ev)), name, phone, reference, interest, summary,
            PStr (cps ''IA Gabriela - Im'' @ [243] @ cps ''vel''),
            PStr (generate_id (clock_id ev) (draws ev)),
            PStr Novo,
            PStr property_type])))))"

text \<open>\<open>captura_imovel_geral\<close>: the response and the spreadsheet after the call.\<close>

definition captura_imovel_geral ::
  "py_runtime \<Rightarrow> env \<Rightarrow> pyval \<Rightarrow> spreadsheet \<Rightarrow> response \<times> spreadsheet" where
  "captura_imovel_geral rt ev data sp =
     (case check_required data imovel_fields of
        Inl e \<Rightarrow> (server_error (exn_msg rt e), sp)
      | Inr (Some field) \<Rightarrow> (client_error (missing_field_msg field), sp)
      | Inr None \<Rightarrow>
          (case get_worksheet sp of
             (None, sp1) \<Rightarrow> (server_error no_worksheet_msg, sp1)
           | (Some ws, sp1) \<Rightarrow>
               (case get_item data (cps ''imovel_referencia'') of
                  Inl e \<Rightarrow> (server_error (exn_msg rt e), sp1)
                | Inr reference \<Rightarrow>
                    (case imovel_row ev data (identify_property_type rt reference) of
                       Inl e \<Rightarrow> (server_error (exn_msg rt e), sp1)
                     | Inr row_data \<Rightarrow>
                         if append_raises ev then (server_error (exn_msg rt APIError), sp1)
                         else
                           (Response 200
                              [(cps ''status'', PInt 200),
                               (cps ''message'',
                                PStr (cps ''Im'' @ [243] @ cps ''vel capturado com sucesso'')),
                               (cps ''lead_id'', row_data ! 7),
                               (cps ''imovel_referencia'', reference),
                               (cps ''tipo_imovel'', PStr (identify_property_type rt reference)),
                               (cps ''timestamp'', row_data ! 0)],
                            append_row ws row_data sp1)))))"

section \<open>Floats\<close>

text \<open>
  Python's \<open>float\<close> is IEEE 754 binary64. \<open>f64 q\<close> is the double nearest to the
  rational \<open>q\<close>, ties to the even significand, with 53 bits of significand and the
  least exponent \<open>-1074\<close>; it is the result of an operation whose exact value is
  \<open>q\<close>, for \<open>q\<close> below the overflow threshold. \<open>round(x)\<close> of a float rounds its exact
  value to the nearest integer, ties to the even one.
\<close>

definition round_half_even :: "rat \<Rightarrow> int" where
  "round_half_even x =
     (let f = \<lfloor>x\<rfloor>; d = x - of_int f
      in if d < 1 / 2 then f else if 1 / 2 < d then f + 1 else if even f then f else f + 1)"

definition pow2 :: "int \<Rightarrow> rat" where
  "pow2 e = (if 0 \<le> e then 2 ^ nat e else 1 / 2 ^ nat (- e))"

text \<open>For \<open>0 < q\<close>, the \<open>k\<close> with \<open>2\<^sup>k \<le> q < 2\<^sup>k\<^sup>+\<^sup>1\<close>.\<close>

definition floor_log2 :: "rat \<Rightarrow> int" where
  "floor_log2 q =
     (if 1 \<le> q then bitlen \<lfloor>q\<rfloor> - 1
      else let r = 1 / q; j = bitlen \<lfloor>r\<rfloor> - 1 in if r = 2 ^ nat j then - j else - j - 1)"

definition f64 :: "rat \<Rightarrow> rat" where
  "f64 q =
     (if q = 0 then 0
      else let e = max (floor_log2 \<bar>q\<bar> - 52) (- 1074)
           in of_int (round_half_even (q / pow2 e)) * pow2 e)"

text \<open>\<open>a / b\<close> of two ints, \<open>b\<close> not zero, and \<open>x * 100\<close> of a float and an int.\<close>

definition truediv :: "int \<Rightarrow> int \<Rightarrow> rat" where
  "truediv a b = f64 (of_int a / of_int b)"

definition fmul :: "rat \<Rightarrow> rat \<Rightarrow> rat" where
  "fmul x y = f64 (x * y)"

section \<open>Aggregation\<close>

text \<open>
  A record of \<open>get_all_records\<close>: a dict from the header's titles to the values of the
  row's cells. \<open>row.get(key, default)\<close> reads it.
\<close>

type_synonym lead = "(ustr \<times> cell) list"

definition row_get :: "lead \<Rightarrow> ustr \<Rightarrow> pyval \<Rightarrow> pyval" where
  "row_get r key dflt = (case map_of r key of None \<Rightarrow> dflt | Some c \<Rightarrow> cell_val c)"

definition lead_val :: "lead \<Rightarrow> pyval" where
  "lead_val r = PDict (map (\<lambda>(k, c). (PStr k, cell_val c)) r)"

definition key_interesse :: ustr where
  "key_interesse = cps ''Interesse Visita''"

definition key_referencia :: ustr where
  "key_referencia = cps ''Im'' @ [243] @ cps ''vel/Refer'' @ [234] @ cps ''ncia''"

definition key_tipo :: ustr where
  "key_tipo = cps ''Tipo Im'' @ [243] @ cps ''vel''"

text \<open>\<open>str(row.get('Interesse Visita', '')).lower() in ['true', 'sim', 'yes']\<close>\<close>

definition interested :: "py_runtime \<Rightarrow> lead \<Rightarrow> bool" where
  "interested rt r =
     (lower rt (py_str rt (row_get r key_interesse (PStr [])))
        \<in> set [cps ''true'', cps ''sim'', cps ''yes''])"

text \<open>
  Equality of two dict keys that are cell values or texts: numbers compare by value, a NaN
  equals nothing, a text equals the same text only.
\<close>

fun num_of :: "pyval \<Rightarrow> rat option" where
  "num_of (PInt i) = Some (of_int i)"
| "num_of (PFloat (Finite r)) = Some r"
| "num_of v = None"

definition key_eq :: "pyval \<Rightarrow> pyval \<Rightarrow> bool" where
  "key_eq a b =
     (case (num_of a, num_of b) of
        (Some x, Some y) \<Rightarrow> x = y
      | _ \<Rightarrow> a = b \<and> a \<noteq> PFloat NaN)"

text \<open>\<open>tipos_count[tipo] = tipos_count.get(tipo, 0) + 1\<close>: a new key goes last.\<close>

fun bump :: "(pyval \<times> int) list \<Rightarrow> pyval \<Rightarrow> (pyval \<times> int) list" where
  "bump [] tipo = [(tipo, 1)]"
| "bump ((k, n) # kvs) tipo =
     (if key_eq k tipo then (k, n + 1) # kvs else (k, n) # bump kvs tipo)"

definition tipos_count :: "lead list \<Rightarrow> (pyval \<times> int) list" where
  "tipos_count data = foldl (\<lambda>acc r. bump acc (row_get r key_tipo (PStr Outros))) [] data"

text \<open>\<open>sum(1 for row in data if cond(row))\<close>\<close>

definition count_if :: "('a \<Rightarrow> bool) \<Rightarrow> 'a list \<Rightarrow> int" where
  "count_if cond data = sum_list (map (\<lambda>r. 1) (filter cond data))"

definition campaign_count :: "ustr \<Rightarrow> lead list \<Rightarrow> int" where
  "campaign_count name data = count_if (\<lambda>r. row_get r key_referencia PNone = PStr name) data"

text \<open>
  \<open>round((interesse_visita / total_leads) * 100) if total_leads > 0 else 0\<close>
\<close>

definition taxa_interesse :: "int \<Rightarrow> int \<Rightarrow> int" where
  "taxa_interesse interesse_visita total_leads =
     (if 0 < total_leads then round_half_even (fmul (truediv interesse_visita total_leads) 100)
      else 0)"

text \<open>
  What \<open>dados_dashboard\<close> gets from \<open>get_worksheet\<close> and \<open>get_all_records\<close>: no
  worksheet, an exception, or the records.
\<close>

datatype fetched = NoWorksheet | ReadRaises py_exn | Records "lead list"

text \<open>
  \<open>jsonify\<close> serialises a dict with its keys sorted, at every level. Sorting the keys of
  a dict raises \<open>TypeError\<close> unless the dict has at most one key, or its keys are all
  numbers, or all texts. The keys of the top-level dict are texts. (The responses of the
  two capture handlers hold texts and values of the request, whose dicts have text keys, so
  serialising them does not raise.)
\<close>

fun is_number :: "pyval \<Rightarrow> bool" where
  "is_number (PBool b) = True"
| "is_number (PInt i) = True"
| "is_number (PFloat x) = True"
| "is_number v = False"

fun is_text :: "pyval \<Rightarrow> bool" where
  "is_text (PStr s) = True"
| "is_text v = False"

definition keys_sortable :: "pyval list \<Rightarrow> bool" where
  "keys_sortable ks = (length ks \<le> 1 \<or> list_all is_number ks \<or> list_all is_text ks)"

fun json_sortable :: "pyval \<Rightarrow> bool" where
  "json_sortable (PList xs) = list_all json_sortable xs"
| "json_sortable (PDict kvs) =
     (keys_sortable (map fst kvs) \<and> list_all json_sortable (map snd kvs))"
| "json_sortable v = True"

text \<open>
  \<open>return jsonify({...})\<close> inside the \<open>try\<close> of \<open>dados_dashboard\<close>: the response with
  status 200, or, when \<open>jsonify\<close> raises, the response of the \<open>except\<close> clause.
\<close>

definition jsonify :: "py_runtime \<Rightarrow> (ustr \<times> pyval) list \<Rightarrow> response" where
  "jsonify rt d =
     (if list_all json_sortable (map snd d) then Response 200 d
      else server_error (exn_msg rt TypeError))"

text \<open>\<open>dados_dashboard\<close>, with the clock that \<open>format_timestamp()\<close> reads.\<close>

definition dados_dashboard :: "py_runtime \<Rightarrow> datetime \<Rightarrow> fetched \<Rightarrow> response" where
  "dados_dashboard rt now got =
     (case got of
        NoWorksheet \<Rightarrow> server_error no_worksheet_msg
      | ReadRaises e \<Rightarrow> server_error (exn_msg rt e)
      | Records data \<Rightarrow>
          if data = [] then
            jsonify rt
              [(cps ''status'', PInt 200), (cps ''total_leads'', PInt 0), (cps ''dados'', PList [])]
          else
            let total_leads = int (length data);
                interesse_visita = count_if (interested rt) data;
                tipos = tipos_count data;
                wind_oceanica = campaign_count (cps ''Wind Oceanica'') data;
                tresor_camboinhas = campaign_count (cps ''Tresor Camboinhas'') data
            in jsonify rt
                 [(cps ''status'', PInt 200),
                  (cps ''total_leads'', PInt total_leads),
                  (cps ''interesse_visita'', PInt interesse_visita),
                  (cps ''taxa_interesse'', PInt (taxa_interesse interesse_visita total_leads)),
                  (cps ''wind_oceanica'', PInt wind_oceanica),
                  (cps ''tresor_camboinhas'', PInt tresor_camboinhas),
                  (cps ''tipos_imovel'', PDict (map (\<lambda>(k, n). (k, PInt n)) tipos)),
                  (cps ''dados'', PList (map lead_val data)),
                  (cps ''ultima_atualizacao'', PStr (format_timestamp now))])"

section \<open>Vocabulary of the specification\<close>

text \<open>
  The rate as the specification words it, \<open>round(interestCount / total * 100, 1)\<close>:
  \<open>round(x, 1)\<close> of a float is the double nearest to the exact value of \<open>x\<close> rounded
  to one decimal.
\<close>

definition round_1_decimal :: "rat \<Rightarrow> rat" where
  "round_1_decimal x = f64 (of_int (round_half_even (x * 10)) / 10)"

definition spec_interest_rate :: "int \<Rightarrow> int \<Rightarrow> rat" where
  "spec_interest_rate interest_count n =
     round_1_decimal (fmul (truediv interest_count n) 100)"

text \<open>A record with the value under \<open>Tipo Imovel\<close> replaced and nothing else changed.\<close>

definition set_tipo :: "cell \<Rightarrow> lead \<Rightarrow> lead" where
  "set_tipo v r = map (\<lambda>(k, c). if k = key_tipo then (k, v) else (k, c)) r"

section \<open>Sample inputs\<close>

text \<open>A clock reading, an environment, a spreadsheet and two payloads, for the examples.\<close>

definition sample_clock :: datetime where
  "sample_clock = \<lparr>year = 2024, month = 1, day = 2, hour = 3, minute = 4, second = 5\<rparr>"

definition sample_env :: env where
  "sample_env =
     \<lparr>clock_row = sample_clock, clock_id = sample_clock, draws = (0, 2, 26, 35),
      append_raises = False\<rparr>"

definition sample_sheet :: spreadsheet where
  "sample_sheet = \<lparr>reachable = True, tabs = [(cps ''Sheet1'', [map PStr headers])]\<rparr>"

definition launch_payload :: "ustr \<Rightarrow> pyval" where
  "launch_payload name =
     PDict [(PStr (cps ''user_name''), PStr (cps ''Ana'')),
            (PStr (cps ''user_phone''), PStr (cps ''21999990000'')),
            (PStr (cps ''lancamento''), PStr name),
            (PStr (cps ''visit_interest''), PStr (cps ''Sim'')),
            (PStr (cps ''summary''), PStr (cps ''Quer visitar''))]"

definition general_payload :: "ustr \<Rightarrow> pyval" where
  "general_payload reference =
     PDict [(PStr (cps ''user_name''), PStr (cps ''Ana'')),
            (PStr (cps ''user_phone''), PStr (cps ''21999990000'')),
            (PStr (cps ''imovel_referencia''), PStr reference),
            (PStr (cps ''visit_interest''), PStr (cps ''Sim'')),
            (PStr (cps ''summary''), PStr (cps ''Quer visitar''))]"

text \<open>
  A runtime for the examples: the case mappings of the Latin-1 letters, and fixed texts for
  \<open>str()\<close> of a value that is not a text and for the message of an exception.
\<close>

definition sample_runtime :: py_runtime where
  "sample_runtime =
     \<lparr>upper_tbl = (\<lambda>c. if c = 223 then [83, 83] else if c = 181 then [924]
                         else if c = 255 then [376]
                         else if 224 \<le> c \<and> c \<le> 254 \<and> c \<noteq> 247 then [c - 32] else [c]),
      lower_ext = map (\<lambda>c. if 65 \<le> c \<and> c \<le> 90 then c + 32
                              else if 192 \<le> c \<and> c \<le> 222 \<and> c \<noteq> 215 then c + 32 else c),
      str_other = (\<lambda>v. cps ''0''),
      exn_msg = (\<lambda>e. cps ''error'')\<rparr>"

text \<open>
  Three records, two with \<open>Interesse Visita = "Sim"\<close> and one with \<open>"Nao"\<close> (the
  \<open>a\<close> with a tilde, U+00E3), and a later reading of the clock.
\<close>

definition sample_lead :: "ustr \<Rightarrow> ustr \<Rightarrow> ustr \<Rightarrow> lead" where
  "sample_lead reference interest tipo =
     [(cps ''Data/Hora'', CStr (cps ''02/01/2024 03:04:05'')),
      (cps ''Nome'', CStr (cps ''Ana'')),
      (cps ''Telefone'', CInt 21999990000),
      (key_referencia, CStr reference),
      (key_interesse, CStr interest),
      (cps ''Resumo Conversa'', CStr (cps ''Quer visitar'')),
      (cps ''Origem'', CStr (cps ''IA Gabriela'')),
      (cps ''ID'', CStr (cps ''IMV_20240102030405_AC09'')),
      (cps ''Status'', CStr (cps ''Novo'')),
      (key_tipo, CStr tipo)]"

definition three_leads :: "lead list" where
  "three_leads =
     [sample_lead (cps ''Wind Oceanica'') (cps ''Sim'') Lancamento,
      sample_lead (cps ''wind oceanica'') (cps ''N'' @ [227] @ cps ''o'') Lancamento,
      sample_lead (cps ''CA123'') (cps ''Sim'') Casa]"

text \<open>
  New property types for the three records, a text, a number and a text, and a payload with
  \<open>user_phone = 0\<close> and \<open>summary = ""\<close>.
\<close>

definition mixed_types :: "cell list" where
  "mixed_types = [CStr Outros, CInt 5, CStr []]"

definition text_types :: "cell list" where
  "text_types = [CStr Outros, CStr Casa, CStr []]"

definition two_falsy_payload :: pyval where
  "two_falsy_payload =
     PDict [(PStr (cps ''user_name''), PStr (cps ''Ana'')),
            (PStr (cps ''user_phone''), PInt 0),
            (PStr (cps ''imovel_referencia''), PStr (cps ''CA123'')),
            (PStr (cps ''visit_interest''), PStr (cps ''Sim'')),
            (PStr (cps ''summary''), PStr [])]"

definition later_clock :: datetime where
  "later_clock = \<lparr>year = 2024, month = 1, day = 2, hour = 3, minute = 4, second = 6\<rparr>"

section \<open>Facts about texts\<close>

lemma cps_simps:
  "cps [] = []" "cps (c # s) = of_char c # cps s"
  by (simp_all add: cps_def)

lemma startswith_two: "startswith s [a, b] = (\<exists>r. s = a # b # r)"
proof (cases s)
  case Nil
  then show ?thesis by simp
next
  case (Cons c cs)
  then show ?thesis by (cases cs) auto
qed

lemma strip_Nil: "strip [] = []"
  by (simp add: strip_def)

lemma upper_Nil: "upper rt [] = []"
  by (simp add: upper_def)

lemma labels_distinct:
  "Casa \<noteq> Indefinido" "Apartamento \<noteq> Indefinido" "Terreno \<noteq> Indefinido"
  "Comercial \<noteq> Indefinido" "Lancamento \<noteq> Indefinido" "Outros \<noteq> Indefinido"
  "Casa \<noteq> Outros" "Apartamento \<noteq> Outros" "Terreno \<noteq> Outros"
  "Comercial \<noteq> Outros" "Lancamento \<noteq> Outros"
  by (simp_all add: Casa_def Apartamento_def Terreno_def Comercial_def Lancamento_def
      Outros_def Indefinido_def cps_simps)

lemma classify_ref_prefix:
  assumes "startswith ref p"
    and "(p, t) \<in> set [(cps ''CA'', Casa), (cps ''AP'', Apartamento),
                        (cps ''TR'', Terreno), (cps ''CO'', Comercial)]"
  shows "classify_ref ref = t"
proof -
  from assms(2) consider
      "p = [67, 65]" "t = Casa" | "p = [65, 80]" "t = Apartamento"
    | "p = [84, 82]" "t = Terreno" | "p = [67, 79]" "t = Comercial"
    by (auto simp: cps_simps)
  then show ?thesis
  proof cases
    case 1
    with assms(1) obtain r where "ref = 67 # 65 # r" by (auto simp: startswith_two)
    with 1 show ?thesis by (simp add: classify_ref_def cps_simps)
  next
    case 2
    with assms(1) obtain r where "ref = 65 # 80 # r" by (auto simp: startswith_two)
    with 2 show ?thesis by (simp add: classify_ref_def cps_simps)
  next
    case 3
    with assms(1) obtain r where "ref = 84 # 82 # r" by (auto simp: startswith_two)
    with 3 show ?thesis by (simp add: classify_ref_def cps_simps)
  next
    case 4
    with assms(1) obtain r where "ref = 67 # 79 # r" by (auto simp: startswith_two)
    with 4 show ?thesis by (simp add: classify_ref_def cps_simps)
  qed
qed

lemma upper_ascii_eval:
  "upper rt [] = []"
  "c < 128 \<Longrightarrow> upper rt (c # s) = (if 97 \<le> c \<and> c \<le> 122 then c - 32 else c) # upper rt s"
  by (simp_all add: upper_def upper_cp_def is_ascii_def)

lemma norm_example:
  "strip (upper rt (cps ''  cobertura casa lancamento'')) = cps ''COBERTURA CASA LANCAMENTO''"
  by (simp add: cps_simps upper_ascii_eval strip_def is_space_def)

section \<open>Classification\<close>

text \<open>
  C1. Whenever the upper-cased, stripped form of a reference text starts with \<open>CA\<close>,
  \<open>AP\<close>, \<open>TR\<close> or \<open>CO\<close>, both copies of \<open>identify_property_type\<close> return
  \<open>Casa\<close>, \<open>Apartamento\<close>, \<open>Terreno\<close> or \<open>Comercial\<close> respectively, whatever
  follows the prefix: no campaign name and no keyword is consulted.
\<close>

theorem prefix_rules_take_precedence:
  assumes "startswith (strip (upper rt s)) p"
    and "(p, t) \<in> set [(cps ''CA'', Casa), (cps ''AP'', Apartamento),
                        (cps ''TR'', Terreno), (cps ''CO'', Comercial)]"
  shows "identify_property_type rt (PStr s) = t
    \<and> identify_property_type_dashboard rt (Some (CStr s)) = t"
proof -
  have "p \<noteq> []" using assms(2) by (auto simp: cps_simps)
  with assms(1) have "s \<noteq> []"
    by (cases p) (auto simp: strip_Nil upper_Nil)
  moreover have "classify_ref (strip (upper rt s)) = t"
    using assms by (rule classify_ref_prefix)
  ultimately show ?thesis
    by (simp add: identify_property_type_def identify_property_type_dashboard_def isna_def
        py_str_def)
qed

text \<open>
  The reference \<open>"  cobertura casa lancamento"\<close> starts with \<open>CO\<close> once normalised and
  holds the keyword \<open>CASA\<close>; it is \<open>Comercial\<close>.
\<close>

theorem prefix_rules_take_precedence_witness:
  "\<forall>rt. startswith (strip (upper rt (cps ''  cobertura casa lancamento''))) (cps ''CO'')
     \<and> contains (strip (upper rt (cps ''  cobertura casa lancamento''))) (cps ''CASA'')
     \<and> identify_property_type rt (PStr (cps ''  cobertura casa lancamento'')) = Comercial
     \<and> identify_property_type_dashboard rt (Some (CStr (cps ''  cobertura casa lancamento''))) = Comercial"
proof
  fix rt
  have h: "startswith (strip (upper rt (cps ''  cobertura casa lancamento''))) (cps ''CO'')"
    by (simp add: norm_example) (simp add: cps_simps)
  have k: "contains (strip (upper rt (cps ''  cobertura casa lancamento''))) (cps ''CASA'')"
    by (simp add: norm_example) (simp add: cps_simps)
  show "startswith (strip (upper rt (cps ''  cobertura casa lancamento''))) (cps ''CO'')
     \<and> contains (strip (upper rt (cps ''  cobertura casa lancamento''))) (cps ''CASA'')
     \<and> identify_property_type rt (PStr (cps ''  cobertura casa lancamento'')) = Comercial
     \<and> identify_property_type_dashboard rt (Some (CStr (cps ''  cobertura casa lancamento''))) = Comercial"
    using h k prefix_rules_take_precedence [OF h, of Comercial] by simp
qed

text \<open>
  C2. The empty text is a reference that the classifier of \<open>dashboard_streamlit.py\<close>
  sends to \<open>Outros\<close>, since \<open>pd.isna('')\<close> is false, while the classifier of
  \<open>webhook_api.py\<close> sends it to \<open>Indefinido\<close>.
\<close>

theorem dashboard_empty_reference:
  "identify_property_type_dashboard rt (Some (CStr [])) = Outros
   \<and> identify_property_type rt (PStr []) = Indefinido
   \<and> Outros \<noteq> Indefinido"
  by (simp add: identify_property_type_dashboard_def identify_property_type_def isna_def py_str_def
      upper_def strip_def classify_ref_def cps_simps labels_distinct)

text \<open>
  What holds of C2: the webhook's classifier returns \<open>Indefinido\<close> on a text exactly
  when the text is empty, and on \<open>None\<close>; both classifiers send \<open>XYZ123\<close> to
  \<open>Outros\<close> and \<open>None\<close> to \<open>Indefinido\<close>.
\<close>

lemma classify_ref_not_Indefinido: "classify_ref ref \<noteq> Indefinido"
  by (simp add: classify_ref_def labels_distinct)

lemma webhook_Indefinido_iff:
  "identify_property_type rt (PStr s) = Indefinido \<longleftrightarrow> s = []"
  by (simp add: identify_property_type_def classify_ref_not_Indefinido)

lemma webhook_None: "identify_property_type rt PNone = Indefinido"
  by (simp add: identify_property_type_def)

lemma dashboard_None: "identify_property_type_dashboard rt None = Indefinido"
  by (simp add: identify_property_type_dashboard_def isna_def)

lemma norm_XYZ: "strip (upper rt (cps ''XYZ123'')) = cps ''XYZ123''"
  by (simp add: cps_simps upper_ascii_eval strip_def is_space_def)

lemma classify_XYZ: "classify_ref (cps ''XYZ123'') = Outros"
  by (simp add: classify_ref_def cps_simps)

lemma XYZ123_is_Outros:
  "identify_property_type rt (PStr (cps ''XYZ123'')) = Outros"
  "identify_property_type_dashboard rt (Some (CStr (cps ''XYZ123''))) = Outros"
  by (simp_all add: identify_property_type_def identify_property_type_dashboard_def isna_def
      py_str_def norm_XYZ classify_XYZ) (simp add: cps_simps)

section \<open>Ingestion: validation and the persisted row\<close>

lemma check_required_dict:
  "check_required (PDict kvs) fs = Inr (find (missing_or_empty kvs) fs)"
  by (induction fs) (auto simp: missing_or_empty_def split: option.splits)

lemma get_worksheet_Some:
  assumes "get_worksheet sp = (Some ws, sp1)"
  shows "map_of (tabs sp1) ws \<noteq> None"
proof (cases "find (\<lambda>name. map_of (tabs sp) name \<noteq> None) worksheet_names")
  case None
  with assms show ?thesis
    by (auto simp: get_worksheet_def map_add_def split: if_splits option.splits)
next
  case (Some name)
  then have "map_of (tabs sp) name \<noteq> None"
    by (auto simp: find_Some_iff)
  with Some assms show ?thesis
    by (auto simp: get_worksheet_def split: if_splits)
qed

lemma map_of_append_row:
  "map_of (map (\<lambda>(title, rows). (title, if title = ws then rows @ [r] else rows)) ts) ws
     = map_option (\<lambda>rows. rows @ [r]) (map_of ts ws)"
  by (induction ts) auto

lemma rows_of_append_row:
  "map_of (tabs sp) ws \<noteq> None \<Longrightarrow> rows_of (append_row ws r sp) ws = rows_of sp ws @ [r]"
  by (auto simp: rows_of_def append_row_def map_of_append_row)

lemma lancamento_row_shape:
  assumes "lancamento_row ev data = Inr r"
  shows "\<exists>name phone launch interest summary.
     get_item data (cps ''user_name'') = Inr name
   \<and> get_item data (cps ''user_phone'') = Inr phone
   \<and> get_item data (cps ''lancamento'') = Inr launch
   \<and> get_item data (cps ''visit_interest'') = Inr interest
   \<and> get_item data (cps ''summary'') = Inr summary
   \<and> r = [PStr (format_timestamp (clock_row ev)), name, phone, launch, interest, summary,
          PStr (cps ''IA Gabriela - Lan'' @ [231] @ cps ''amento''),
          PStr (generate_id (clock_id ev) (draws ev)), PStr Novo, PStr Lancamento]"
  using assms unfolding lancamento_row_def then_do_def
  by (auto split: sum.splits)

lemma imovel_row_shape:
  assumes "imovel_row ev data t = Inr r"
  shows "\<exists>name phone reference interest summary.
     get_item data (cps ''user_name'') = Inr name
   \<and> get_item data (cps ''user_phone'') = Inr phone
   \<and> get_item data (cps ''imovel_referencia'') = Inr reference
   \<and> get_item data (cps ''visit_interest'') = Inr interest
   \<and> get_item data (cps ''summary'') = Inr summary
   \<and> r = [PStr (format_timestamp (clock_row ev)), name, phone, reference, interest, summary,
          PStr (cps ''IA Gabriela - Im'' @ [243] @ cps ''vel''),
          PStr (generate_id (clock_id ev) (draws ev)), PStr Novo, PStr t]"
  using assms unfolding imovel_row_def then_do_def
  by (auto split: sum.splits)

lemma status_simps:
  "status (client_error m) = 400" "status (server_error m) = 500"
  by (simp_all add: client_error_def server_error_def)

lemma captura_lancamento_success:
  assumes "captura_lancamento rt ev data sp = (resp, sp')" and "status resp = 200"
  shows "\<exists>ws sp1 r launch.
      check_required data lancamento_fields = Inr None
    \<and> get_item data (cps ''lancamento'') = Inr launch
    \<and> launch \<in> set (map PStr valid_launches)
    \<and> get_worksheet sp = (Some ws, sp1)
    \<and> lancamento_row ev data = Inr r
    \<and> sp' = append_row ws r sp1"
  using assms unfolding captura_lancamento_def
  by (auto simp: status_simps split: sum.splits option.splits prod.splits if_splits)

lemma captura_imovel_geral_success:
  assumes "captura_imovel_geral rt ev data sp = (resp, sp')" and "status resp = 200"
  shows "\<exists>ws sp1 r reference.
      check_required data imovel_fields = Inr None
    \<and> get_item data (cps ''imovel_referencia'') = Inr reference
    \<and> get_worksheet sp = (Some ws, sp1)
    \<and> imovel_row ev data (identify_property_type rt reference) = Inr r
    \<and> sp' = append_row ws r sp1"
  using assms unfolding captura_imovel_geral_def
  by (auto simp: status_simps split: sum.splits option.splits prod.splits if_splits)

lemma captura_lancamento_missing:
  assumes "find (missing_or_empty kvs) lancamento_fields = Some f"
  shows "captura_lancamento rt ev (PDict kvs) sp = (client_error (missing_field_msg f), sp)"
  using assms by (simp add: captura_lancamento_def check_required_dict)

lemma captura_imovel_geral_missing:
  assumes "find (missing_or_empty kvs) imovel_fields = Some f"
  shows "captura_imovel_geral rt ev (PDict kvs) sp = (client_error (missing_field_msg f), sp)"
  using assms by (simp add: captura_imovel_geral_def check_required_dict)

lemma find_first:
  "f \<in> set xs \<Longrightarrow> P f \<Longrightarrow>
   \<exists>g. find P xs = Some g \<and> P g \<and> (list_all (\<lambda>h. \<not> P h) (takeWhile (\<lambda>h. h \<noteq> f) xs) \<longrightarrow> g = f)"
  by (induction xs) auto

lemma find_None_present:
  assumes "find (missing_or_empty kvs) fs = None" and "f \<in> set fs"
  shows "\<exists>v. map_of kvs (PStr f) = Some v \<and> truthy v"
  using assms by (auto simp: find_None_iff missing_or_empty_def split: option.splits)

lemma captura_lancamento_invalid:
  assumes "map_of kvs (PStr (cps ''lancamento'')) \<noteq> Some (PStr (cps ''Wind Oceanica''))"
    and "map_of kvs (PStr (cps ''lancamento'')) \<noteq> Some (PStr (cps ''Tresor Camboinhas''))"
  shows "\<exists>msg. captura_lancamento rt ev (PDict kvs) sp = (client_error msg, sp)
           \<and> (find (missing_or_empty kvs) lancamento_fields = None \<longrightarrow> msg = invalid_launch_msg)"
proof (cases "find (missing_or_empty kvs) lancamento_fields")
  case (Some f)
  then show ?thesis
    using captura_lancamento_missing [of kvs f rt ev sp] by auto
next
  case None
  have "cps ''lancamento'' \<in> set lancamento_fields"
    by (simp add: lancamento_fields_def)
  with None obtain v where v: "map_of kvs (PStr (cps ''lancamento'')) = Some v"
    using find_None_present by blast
  with assms have "v \<notin> set (map PStr valid_launches)"
    by (auto simp: valid_launches_def)
  with None v show ?thesis
    by (simp add: captura_lancamento_def check_required_dict)
qed

lemma find_missing_summary:
  "find (missing_or_empty
           [(PStr (cps ''user_name''), PStr (cps ''Ana'')),
            (PStr (cps ''user_phone''), PStr (cps ''21999990000'')),
            (PStr (cps ''imovel_referencia''), PStr (cps ''CA123'')),
            (PStr (cps ''visit_interest''), PStr (cps ''Sim''))])
        imovel_fields = Some (cps ''summary'')"
  by (simp add: imovel_fields_def missing_or_empty_def cps_simps)

lemma sample_launch_ok:
  "status (fst (captura_lancamento rt sample_env (launch_payload (cps ''Wind Oceanica'')) sample_sheet)) = 200"
  by (simp add: captura_lancamento_def lancamento_fields_def launch_payload_def cps_simps
      valid_launches_def get_worksheet_def worksheet_names_def sample_sheet_def sample_env_def
      lancamento_row_def then_do_def)

lemma launch_payload_eval:
  "launch_payload name = PDict kvs \<Longrightarrow> name \<noteq> [] \<Longrightarrow>
     map_of kvs (PStr (cps ''lancamento'')) = Some (PStr name)
     \<and> find (missing_or_empty kvs) lancamento_fields = None"
  by (auto simp: launch_payload_def cps_simps lancamento_fields_def missing_or_empty_def)

lemma headers_length: "length headers = 10"
  by (simp add: headers_def)

lemma sample_timestamp: "format_timestamp sample_clock = cps ''02/01/2024 03:04:05''"
  by (simp add: format_timestamp_def sample_clock_def pad2_def pad4_def cps_simps)

lemma sample_id: "generate_id sample_clock (0, 2, 26, 35) = cps ''IMV_20240102030405_AC09''"
  by (simp add: generate_id_def sample_clock_def pad2_def pad4_def alphabet_def cps_simps)

lemma norm_CA123: "strip (upper rt (cps ''CA123'')) = cps ''CA123''"
  by (simp add: cps_simps upper_ascii_eval strip_def is_space_def)

lemma sample_type: "identify_property_type rt (PStr (cps ''CA123'')) = Casa"
  by (simp add: identify_property_type_def py_str_def norm_CA123)
    (simp add: classify_ref_def cps_simps)

lemma sample_general_ok:
  "status (fst (captura_imovel_geral rt sample_env (general_payload (cps ''CA123'')) sample_sheet)) = 200"
  by (simp add: captura_imovel_geral_def imovel_fields_def general_payload_def cps_simps
      get_worksheet_def worksheet_names_def sample_sheet_def sample_env_def
      imovel_row_def then_do_def)

lemma sample_general_not_launch:
  "status (fst (captura_lancamento rt sample_env (general_payload (cps ''CA123'')) sample_sheet)) = 400"
  by (simp add: captura_lancamento_def lancamento_fields_def general_payload_def cps_simps
      status_simps)

text \<open>
  C6. \<open>captura_imovel_geral\<close> checks \<open>user_name\<close>, \<open>user_phone\<close>,
  \<open>imovel_referencia\<close>, \<open>visit_interest\<close>, \<open>summary\<close> in this order. When \<open>f\<close> is
  the first of them that is missing or empty in the payload object, the response has status
  400, its error names \<open>f\<close>, and the spreadsheet is unchanged.
\<close>

theorem general_lead_names_first_missing_field:
  assumes "find (missing_or_empty kvs) imovel_fields = Some f"
  shows "imovel_fields =
           [cps ''user_name'', cps ''user_phone'', cps ''imovel_referencia'',
            cps ''visit_interest'', cps ''summary'']
       \<and> captura_imovel_geral rt ev (PDict kvs) sp =
           (Response 400
              [(cps ''status'', PInt 400),
               (cps ''error'', PStr (cps ''Campo obrigat'' @ [243] @ cps ''rio ausente: '' @ f))],
            sp)"
  using captura_imovel_geral_missing [OF assms, of rt ev sp]
  by (simp add: imovel_fields_def client_error_def missing_field_msg_def)

text \<open>A payload that lacks only \<open>summary\<close> is refused with an error naming \<open>summary\<close>.\<close>

theorem general_lead_names_first_missing_field_witness:
  "\<forall>rt ev sp.
     captura_imovel_geral rt ev
       (PDict [(PStr (cps ''user_name''), PStr (cps ''Ana'')),
               (PStr (cps ''user_phone''), PStr (cps ''21999990000'')),
               (PStr (cps ''imovel_referencia''), PStr (cps ''CA123'')),
               (PStr (cps ''visit_interest''), PStr (cps ''Sim''))]) sp =
       (Response 400
          [(cps ''status'', PInt 400),
           (cps ''error'', PStr (cps ''Campo obrigat'' @ [243] @ cps ''rio ausente: summary''))],
        sp)"
  using general_lead_names_first_missing_field [OF find_missing_summary]
  by (simp add: cps_simps)

text \<open>
  C7. When the payload object's \<open>lancamento\<close> is neither \<open>Wind Oceanica\<close> nor
  \<open>Tresor Camboinhas\<close>, compared as they are, \<open>captura_lancamento\<close> answers with status
  400 and leaves the spreadsheet unchanged; with every required field present the error is
  the one about the launch name. When it answers 200, the launch is one of the two names,
  and the appended row has it at position 3 and the text \<open>Lancamento\<close> at
  position 9.
\<close>

theorem launch_name_must_match_exactly:
  "(map_of kvs (PStr (cps ''lancamento'')) \<noteq> Some (PStr (cps ''Wind Oceanica''))
      \<and> map_of kvs (PStr (cps ''lancamento'')) \<noteq> Some (PStr (cps ''Tresor Camboinhas''))
    \<longrightarrow> (\<exists>msg. captura_lancamento rt ev (PDict kvs) sp =
                 (Response 400 [(cps ''status'', PInt 400), (cps ''error'', PStr msg)], sp)
             \<and> (find (missing_or_empty kvs) lancamento_fields = None
                  \<longrightarrow> msg = cps ''Lan'' @ [231]
                        @ cps ''amento deve ser: Wind Oceanica ou Tresor Camboinhas'')))
   \<and> (captura_lancamento rt ev data sp' = (resp, sp'') \<and> status resp = 200
    \<longrightarrow> (\<exists>ws sp1 r launch.
           get_item data (cps ''lancamento'') = Inr launch
         \<and> (launch = PStr (cps ''Wind Oceanica'') \<or> launch = PStr (cps ''Tresor Camboinhas''))
         \<and> get_worksheet sp' = (Some ws, sp1)
         \<and> sp'' = append_row ws r sp1
         \<and> rows_of sp'' ws = rows_of sp1 ws @ [r]
         \<and> length r = 10
         \<and> r ! 3 = launch
         \<and> r ! 9 = PStr (cps ''Lan'' @ [231] @ cps ''amento'')))"
proof (intro conjI impI)
  assume "map_of kvs (PStr (cps ''lancamento'')) \<noteq> Some (PStr (cps ''Wind Oceanica''))
      \<and> map_of kvs (PStr (cps ''lancamento'')) \<noteq> Some (PStr (cps ''Tresor Camboinhas''))"
  then show "\<exists>msg. captura_lancamento rt ev (PDict kvs) sp =
                 (Response 400 [(cps ''status'', PInt 400), (cps ''error'', PStr msg)], sp)
             \<and> (find (missing_or_empty kvs) lancamento_fields = None
                  \<longrightarrow> msg = cps ''Lan'' @ [231]
                        @ cps ''amento deve ser: Wind Oceanica ou Tresor Camboinhas'')"
    using captura_lancamento_invalid [of kvs rt ev sp]
    by (simp add: client_error_def invalid_launch_msg_def)
next
  assume a: "captura_lancamento rt ev data sp' = (resp, sp'') \<and> status resp = 200"
  then obtain ws sp1 r launch where
    l: "get_item data (cps ''lancamento'') = Inr launch"
    and v: "launch \<in> set (map PStr valid_launches)"
    and w: "get_worksheet sp' = (Some ws, sp1)"
    and r: "lancamento_row ev data = Inr r"
    and s: "sp'' = append_row ws r sp1"
    using captura_lancamento_success [of rt ev data sp' resp sp''] by blast
  from r l have shape: "length r = 10 \<and> r ! 3 = launch \<and> r ! 9 = PStr Lancamento"
    using lancamento_row_shape [of ev data r] by auto
  have "rows_of sp'' ws = rows_of sp1 ws @ [r]"
    using s rows_of_append_row [OF get_worksheet_Some [OF w]] by simp
  with l v w s shape
  show "\<exists>ws sp1 r launch.
           get_item data (cps ''lancamento'') = Inr launch
         \<and> (launch = PStr (cps ''Wind Oceanica'') \<or> launch = PStr (cps ''Tresor Camboinhas''))
         \<and> get_worksheet sp' = (Some ws, sp1)
         \<and> sp'' = append_row ws r sp1
         \<and> rows_of sp'' ws = rows_of sp1 ws @ [r]
         \<and> length r = 10
         \<and> r ! 3 = launch
         \<and> r ! 9 = PStr (cps ''Lan'' @ [231] @ cps ''amento'')"
    by (auto simp: valid_launches_def Lancamento_def)
qed

text \<open>
  \<open>Wind Oceanica Tower\<close> and \<open>wind oceanica\<close> are refused; \<open>Wind Oceanica\<close> is
  stored.
\<close>

theorem launch_name_must_match_exactly_witness:
  "\<forall>rt.
     captura_lancamento rt sample_env (launch_payload (cps ''Wind Oceanica Tower'')) sample_sheet =
       (Response 400
          [(cps ''status'', PInt 400),
           (cps ''error'',
            PStr (cps ''Lan'' @ [231] @ cps ''amento deve ser: Wind Oceanica ou Tresor Camboinhas''))],
        sample_sheet)
   \<and> captura_lancamento rt sample_env (launch_payload (cps ''wind oceanica'')) sample_sheet =
       (Response 400
          [(cps ''status'', PInt 400),
           (cps ''error'',
            PStr (cps ''Lan'' @ [231] @ cps ''amento deve ser: Wind Oceanica ou Tresor Camboinhas''))],
        sample_sheet)
   \<and> status (fst (captura_lancamento rt sample_env (launch_payload (cps ''Wind Oceanica''))
         sample_sheet)) = 200
   \<and> (\<exists>r. rows_of (snd (captura_lancamento rt sample_env (launch_payload (cps ''Wind Oceanica''))
                  sample_sheet)) (cps ''Sheet1'')
            = [map PStr headers, r]
          \<and> r ! 3 = PStr (cps ''Wind Oceanica'')
          \<and> r ! 9 = PStr (cps ''Lan'' @ [231] @ cps ''amento''))"
proof (intro allI conjI)
  fix rt
  obtain k1 where k1: "launch_payload (cps ''Wind Oceanica Tower'') = PDict k1"
    by (simp add: launch_payload_def)
  have e1: "map_of k1 (PStr (cps ''lancamento'')) = Some (PStr (cps ''Wind Oceanica Tower''))
      \<and> find (missing_or_empty k1) lancamento_fields = None"
    using launch_payload_eval [OF k1] by (simp add: cps_simps)
  then have n1: "map_of k1 (PStr (cps ''lancamento'')) \<noteq> Some (PStr (cps ''Wind Oceanica''))
      \<and> map_of k1 (PStr (cps ''lancamento'')) \<noteq> Some (PStr (cps ''Tresor Camboinhas''))"
    by (simp add: cps_simps)
  show "captura_lancamento rt sample_env (launch_payload (cps ''Wind Oceanica Tower'')) sample_sheet =
       (Response 400
          [(cps ''status'', PInt 400),
           (cps ''error'',
            PStr (cps ''Lan'' @ [231] @ cps ''amento deve ser: Wind Oceanica ou Tresor Camboinhas''))],
        sample_sheet)"
    using launch_name_must_match_exactly [of k1 rt sample_env sample_sheet] n1 e1 k1 by auto
  obtain k2 where k2: "launch_payload (cps ''wind oceanica'') = PDict k2"
    by (simp add: launch_payload_def)
  have e2: "map_of k2 (PStr (cps ''lancamento'')) = Some (PStr (cps ''wind oceanica''))
      \<and> find (missing_or_empty k2) lancamento_fields = None"
    using launch_payload_eval [OF k2] by (simp add: cps_simps)
  then have n2: "map_of k2 (PStr (cps ''lancamento'')) \<noteq> Some (PStr (cps ''Wind Oceanica''))
      \<and> map_of k2 (PStr (cps ''lancamento'')) \<noteq> Some (PStr (cps ''Tresor Camboinhas''))"
    by (simp add: cps_simps)
  show "captura_lancamento rt sample_env (launch_payload (cps ''wind oceanica'')) sample_sheet =
       (Response 400
          [(cps ''status'', PInt 400),
           (cps ''error'',
            PStr (cps ''Lan'' @ [231] @ cps ''amento deve ser: Wind Oceanica ou Tresor Camboinhas''))],
        sample_sheet)"
    using launch_name_must_match_exactly [of k2 rt sample_env sample_sheet] n2 e2 k2 by auto
  let ?res = "captura_lancamento rt sample_env (launch_payload (cps ''Wind Oceanica'')) sample_sheet"
  show ok: "status (fst ?res) = 200" by (rule sample_launch_ok)
  have gi: "get_item (launch_payload (cps ''Wind Oceanica'')) (cps ''lancamento'')
      = Inr (PStr (cps ''Wind Oceanica''))"
    by (simp add: launch_payload_def cps_simps)
  have gw: "get_worksheet sample_sheet = (Some (cps ''Sheet1''), sample_sheet)"
    by (simp add: get_worksheet_def sample_sheet_def worksheet_names_def cps_simps)
  have "?res = (fst ?res, snd ?res) \<and> status (fst ?res) = 200"
    using ok by simp
  then obtain ws sp1 r launch where
    "get_item (launch_payload (cps ''Wind Oceanica'')) (cps ''lancamento'') = Inr launch"
    "get_worksheet sample_sheet = (Some ws, sp1)"
    "rows_of (snd ?res) ws = rows_of sp1 ws @ [r]" "r ! 3 = launch"
    "r ! 9 = PStr (cps ''Lan'' @ [231] @ cps ''amento'')"
    using launch_name_must_match_exactly
      [where rt = rt and ev = sample_env and data = "launch_payload (cps ''Wind Oceanica'')"
        and sp' = sample_sheet and resp = "fst ?res" and sp'' = "snd ?res"]
    by blast
  with gi gw show "\<exists>r. rows_of (snd ?res) (cps ''Sheet1'') = [map PStr headers, r]
          \<and> r ! 3 = PStr (cps ''Wind Oceanica'')
          \<and> r ! 9 = PStr (cps ''Lan'' @ [231] @ cps ''amento'')"
    by (auto simp: rows_of_def sample_sheet_def)
qed

text \<open>
  C8. When either handler answers 200 it has appended one row to the worksheet. The row has
  ten values, as many as the header row, and position by position they are the timestamp,
  the name, the phone, the reference, the visit interest, the summary, the origin, the
  identifier, the status \<open>Novo\<close> and the property type, under the headers
  \<open>Data/Hora\<close>, \<open>Nome\<close>, \<open>Telefone\<close>, \<open>Imovel/Referencia\<close>,
  \<open>Interesse Visita\<close>, \<open>Resumo Conversa\<close>, \<open>Origem\<close>, \<open>ID\<close>, \<open>Status\<close>,
  \<open>Tipo Imovel\<close> (the accented letters are in \<open>headers\<close>).
\<close>

theorem persisted_record_has_ten_fields:
  assumes "captura_lancamento rt ev data sp = (resp, sp')
         \<or> captura_imovel_geral rt ev data sp = (resp, sp')"
    and "status resp = 200"
  shows "\<exists>ws sp1 r name phone reference interest summary source tipo.
      get_worksheet sp = (Some ws, sp1)
    \<and> sp' = append_row ws r sp1
    \<and> rows_of sp' ws = rows_of sp1 ws @ [r]
    \<and> get_item data (cps ''user_name'') = Inr name
    \<and> get_item data (cps ''user_phone'') = Inr phone
    \<and> get_item data (cps ''visit_interest'') = Inr interest
    \<and> get_item data (cps ''summary'') = Inr summary
    \<and> (captura_lancamento rt ev data sp = (resp, sp')
          \<and> get_item data (cps ''lancamento'') = Inr reference
          \<and> source = cps ''IA Gabriela - Lan'' @ [231] @ cps ''amento''
          \<and> tipo = cps ''Lan'' @ [231] @ cps ''amento''
        \<or> captura_imovel_geral rt ev data sp = (resp, sp')
          \<and> get_item data (cps ''imovel_referencia'') = Inr reference
          \<and> source = cps ''IA Gabriela - Im'' @ [243] @ cps ''vel''
          \<and> tipo = identify_property_type rt reference)
    \<and> length r = 10
    \<and> length headers = 10
    \<and> zip headers r =
        [(cps ''Data/Hora'', PStr (format_timestamp (clock_row ev))),
         (cps ''Nome'', name),
         (cps ''Telefone'', phone),
         (cps ''Im'' @ [243] @ cps ''vel/Refer'' @ [234] @ cps ''ncia'', reference),
         (cps ''Interesse Visita'', interest),
         (cps ''Resumo Conversa'', summary),
         (cps ''Origem'', PStr source),
         (cps ''ID'', PStr (generate_id (clock_id ev) (draws ev))),
         (cps ''Status'', PStr (cps ''Novo'')),
         (cps ''Tipo Im'' @ [243] @ cps ''vel'', PStr tipo)]"
  using assms(1)
proof
  assume a: "captura_lancamento rt ev data sp = (resp, sp')"
  then obtain ws sp1 r launch where
    w: "get_worksheet sp = (Some ws, sp1)"
    and r: "lancamento_row ev data = Inr r"
    and s: "sp' = append_row ws r sp1"
    using captura_lancamento_success [OF a assms(2)] by blast
  have rows: "rows_of sp' ws = rows_of sp1 ws @ [r]"
    using s rows_of_append_row [OF get_worksheet_Some [OF w]] by simp
  from lancamento_row_shape [OF r] obtain name phone reference interest summary where
    "get_item data (cps ''user_name'') = Inr name"
    "get_item data (cps ''user_phone'') = Inr phone"
    "get_item data (cps ''lancamento'') = Inr reference"
    "get_item data (cps ''visit_interest'') = Inr interest"
    "get_item data (cps ''summary'') = Inr summary"
    "r = [PStr (format_timestamp (clock_row ev)), name, phone, reference, interest, summary,
          PStr (cps ''IA Gabriela - Lan'' @ [231] @ cps ''amento''),
          PStr (generate_id (clock_id ev) (draws ev)), PStr Novo, PStr Lancamento]"
    by blast
  with a w s rows show ?thesis
    by (simp add: headers_def Novo_def Lancamento_def)
next
  assume a: "captura_imovel_geral rt ev data sp = (resp, sp')"
  then obtain ws sp1 r ref0 where
    w: "get_worksheet sp = (Some ws, sp1)"
    and g: "get_item data (cps ''imovel_referencia'') = Inr ref0"
    and r: "imovel_row ev data (identify_property_type rt ref0) = Inr r"
    and s: "sp' = append_row ws r sp1"
    using captura_imovel_geral_success [OF a assms(2)] by blast
  have rows: "rows_of sp' ws = rows_of sp1 ws @ [r]"
    using s rows_of_append_row [OF get_worksheet_Some [OF w]] by simp
  from imovel_row_shape [OF r] g obtain name phone interest summary where
    "get_item data (cps ''user_name'') = Inr name"
    "get_item data (cps ''user_phone'') = Inr phone"
    "get_item data (cps ''visit_interest'') = Inr interest"
    "get_item data (cps ''summary'') = Inr summary"
    "r = [PStr (format_timestamp (clock_row ev)), name, phone, ref0, interest, summary,
          PStr (cps ''IA Gabriela - Im'' @ [243] @ cps ''vel''),
          PStr (generate_id (clock_id ev) (draws ev)), PStr Novo,
          PStr (identify_property_type rt ref0)]"
    by auto
  with a w s rows g show ?thesis
    by (simp add: headers_def Novo_def)
qed

text \<open>The row stored for the reference \<open>CA123\<close>.\<close>

theorem persisted_record_has_ten_fields_witness:
  "\<forall>rt.
     status (fst (captura_imovel_geral rt sample_env (general_payload (cps ''CA123'')) sample_sheet))
       = 200
   \<and> rows_of (snd (captura_imovel_geral rt sample_env (general_payload (cps ''CA123''))
                  sample_sheet)) (cps ''Sheet1'')
       = [map PStr headers,
          [PStr (cps ''02/01/2024 03:04:05''), PStr (cps ''Ana''), PStr (cps ''21999990000''),
           PStr (cps ''CA123''), PStr (cps ''Sim''), PStr (cps ''Quer visitar''),
           PStr (cps ''IA Gabriela - Im'' @ [243] @ cps ''vel''),
           PStr (cps ''IMV_20240102030405_AC09''), PStr (cps ''Novo''), PStr (cps ''Casa'')]]"
proof (intro allI conjI)
  fix rt
  let ?data = "general_payload (cps ''CA123'')"
  let ?res = "captura_imovel_geral rt sample_env ?data sample_sheet"
  show ok: "status (fst ?res) = 200" by (rule sample_general_ok)
  have h: "captura_lancamento rt sample_env ?data sample_sheet = (fst ?res, snd ?res)
         \<or> ?res = (fst ?res, snd ?res)"
    by simp
  have nl: "captura_lancamento rt sample_env ?data sample_sheet \<noteq> (fst ?res, snd ?res)"
  proof
    assume "captura_lancamento rt sample_env ?data sample_sheet = (fst ?res, snd ?res)"
    then have "status (fst (captura_lancamento rt sample_env ?data sample_sheet))
        = status (fst ?res)"
      by simp
    then show False
      unfolding sample_general_not_launch ok by simp
  qed
  have gw: "get_worksheet sample_sheet = (Some (cps ''Sheet1''), sample_sheet)"
    by (simp add: get_worksheet_def sample_sheet_def worksheet_names_def cps_simps)
  have gi:
    "get_item ?data (cps ''user_name'') = Inr (PStr (cps ''Ana''))"
    "get_item ?data (cps ''user_phone'') = Inr (PStr (cps ''21999990000''))"
    "get_item ?data (cps ''imovel_referencia'') = Inr (PStr (cps ''CA123''))"
    "get_item ?data (cps ''visit_interest'') = Inr (PStr (cps ''Sim''))"
    "get_item ?data (cps ''summary'') = Inr (PStr (cps ''Quer visitar''))"
    by (simp_all add: general_payload_def cps_simps)
  have ev: "format_timestamp (clock_row sample_env) = cps ''02/01/2024 03:04:05''"
    "generate_id (clock_id sample_env) (draws sample_env) = cps ''IMV_20240102030405_AC09''"
    by (simp_all add: sample_env_def sample_timestamp sample_id)
  from persisted_record_has_ten_fields [OF h ok]
  obtain ws sp1 r name phone reference interest summary source tipo where
    big: "get_worksheet sample_sheet = (Some ws, sp1)
    \<and> snd ?res = append_row ws r sp1
    \<and> rows_of (snd ?res) ws = rows_of sp1 ws @ [r]
    \<and> get_item ?data (cps ''user_name'') = Inr name
    \<and> get_item ?data (cps ''user_phone'') = Inr phone
    \<and> get_item ?data (cps ''visit_interest'') = Inr interest
    \<and> get_item ?data (cps ''summary'') = Inr summary
    \<and> (captura_lancamento rt sample_env ?data sample_sheet = (fst ?res, snd ?res)
          \<and> get_item ?data (cps ''lancamento'') = Inr reference
          \<and> source = cps ''IA Gabriela - Lan'' @ [231] @ cps ''amento''
          \<and> tipo = cps ''Lan'' @ [231] @ cps ''amento''
        \<or> ?res = (fst ?res, snd ?res)
          \<and> get_item ?data (cps ''imovel_referencia'') = Inr reference
          \<and> source = cps ''IA Gabriela - Im'' @ [243] @ cps ''vel''
          \<and> tipo = identify_property_type rt reference)
    \<and> length r = 10
    \<and> length headers = 10
    \<and> zip headers r =
        [(cps ''Data/Hora'', PStr (format_timestamp (clock_row sample_env))),
         (cps ''Nome'', name),
         (cps ''Telefone'', phone),
         (cps ''Im'' @ [243] @ cps ''vel/Refer'' @ [234] @ cps ''ncia'', reference),
         (cps ''Interesse Visita'', interest),
         (cps ''Resumo Conversa'', summary),
         (cps ''Origem'', PStr source),
         (cps ''ID'', PStr (generate_id (clock_id sample_env) (draws sample_env))),
         (cps ''Status'', PStr (cps ''Novo'')),
         (cps ''Tipo Im'' @ [243] @ cps ''vel'', PStr tipo)]"
    by (elim exE) (rule that)
  from big nl have
    f: "get_worksheet sample_sheet = (Some ws, sp1)"
      "rows_of (snd ?res) ws = rows_of sp1 ws @ [r]"
      "get_item ?data (cps ''user_name'') = Inr name"
      "get_item ?data (cps ''user_phone'') = Inr phone"
      "get_item ?data (cps ''visit_interest'') = Inr interest"
      "get_item ?data (cps ''summary'') = Inr summary"
      "get_item ?data (cps ''imovel_referencia'') = Inr reference"
      "source = cps ''IA Gabriela - Im'' @ [243] @ cps ''vel''"
      "tipo = identify_property_type rt reference"
      "length r = 10"
    and z: "zip headers r =
        [(cps ''Data/Hora'', PStr (format_timestamp (clock_row sample_env))),
         (cps ''Nome'', name),
         (cps ''Telefone'', phone),
         (cps ''Im'' @ [243] @ cps ''vel/Refer'' @ [234] @ cps ''ncia'', reference),
         (cps ''Interesse Visita'', interest),
         (cps ''Resumo Conversa'', summary),
         (cps ''Origem'', PStr source),
         (cps ''ID'', PStr (generate_id (clock_id sample_env) (draws sample_env))),
         (cps ''Status'', PStr (cps ''Novo'')),
         (cps ''Tipo Im'' @ [243] @ cps ''vel'', PStr tipo)]"
    by blast+
  have "r = map snd (zip headers r)"
    using f(10) by (simp add: headers_length)
  then have "r = [PStr (cps ''02/01/2024 03:04:05''), name, phone, reference, interest, summary,
      PStr source, PStr (cps ''IMV_20240102030405_AC09''), PStr (cps ''Novo''), PStr tipo]"
    unfolding z ev by simp
  moreover have "ws = cps ''Sheet1''" "sp1 = sample_sheet"
    using f(1) gw by simp_all
  moreover have "name = PStr (cps ''Ana'')" "phone = PStr (cps ''21999990000'')"
    "interest = PStr (cps ''Sim'')" "summary = PStr (cps ''Quer visitar'')"
    "reference = PStr (cps ''CA123'')"
    using f(3-7) gi by simp_all
  ultimately show "rows_of (snd ?res) (cps ''Sheet1'')
       = [map PStr headers,
          [PStr (cps ''02/01/2024 03:04:05''), PStr (cps ''Ana''), PStr (cps ''21999990000''),
           PStr (cps ''CA123''), PStr (cps ''Sim''), PStr (cps ''Quer visitar''),
           PStr (cps ''IA Gabriela - Im'' @ [243] @ cps ''vel''),
           PStr (cps ''IMV_20240102030405_AC09''), PStr (cps ''Novo''), PStr (cps ''Casa'')]]"
    using f(2,8,9) by (simp add: rows_of_def sample_sheet_def sample_type Casa_def)
qed

text \<open>
  C10, as the code has it. In both handlers, a required field that is present with a falsy
  value (\<open>None\<close>, \<open>False\<close>, zero, an empty text, list or dict) is treated as a missing
  one: the response has status 400, the spreadsheet is unchanged, and the error names the
  first required field, in the order checked, that is missing or falsy. That is the field
  in question when every required field before it is present and truthy.
\<close>

theorem falsy_required_field_rejected:
  assumes "(handler, required) \<in>
             {(captura_lancamento, lancamento_fields), (captura_imovel_geral, imovel_fields)}"
    and "f \<in> set required"
    and "map_of kvs (PStr f) = Some v"
    and "\<not> truthy v"
  shows "\<exists>g. find (missing_or_empty kvs) required = Some g
           \<and> handler rt ev (PDict kvs) sp =
               (Response 400
                  [(cps ''status'', PInt 400),
                   (cps ''error'', PStr (cps ''Campo obrigat'' @ [243] @ cps ''rio ausente: '' @ g))],
                sp)
           \<and> (list_all (\<lambda>h. \<not> missing_or_empty kvs h) (takeWhile (\<lambda>h. h \<noteq> f) required)
                \<longrightarrow> g = f)"
proof -
  have "missing_or_empty kvs f"
    using assms(3,4) by (simp add: missing_or_empty_def)
  with assms(2) obtain g where g: "find (missing_or_empty kvs) required = Some g"
    and first: "list_all (\<lambda>h. \<not> missing_or_empty kvs h) (takeWhile (\<lambda>h. h \<noteq> f) required)
                  \<longrightarrow> g = f"
    using find_first [of f required "missing_or_empty kvs"] by blast
  have "handler rt ev (PDict kvs) sp = (client_error (missing_field_msg g), sp)"
    using assms(1) g captura_lancamento_missing captura_imovel_geral_missing by auto
  with g first show ?thesis
    by (auto simp: client_error_def missing_field_msg_def)
qed

text \<open>\<open>visit_interest = false\<close> is refused with an error naming \<open>visit_interest\<close>.\<close>

theorem falsy_required_field_rejected_witness:
  "\<forall>rt ev sp.
     captura_lancamento rt ev
       (PDict [(PStr (cps ''user_name''), PStr (cps ''Ana'')),
               (PStr (cps ''user_phone''), PStr (cps ''21999990000'')),
               (PStr (cps ''lancamento''), PStr (cps ''Wind Oceanica'')),
               (PStr (cps ''visit_interest''), PBool False),
               (PStr (cps ''summary''), PStr (cps ''Quer visitar''))]) sp =
       (Response 400
          [(cps ''status'', PInt 400),
           (cps ''error'',
            PStr (cps ''Campo obrigat'' @ [243] @ cps ''rio ausente: visit_interest''))],
        sp)"
proof (intro allI)
  fix rt ev sp
  let ?kvs = "[(PStr (cps ''user_name''), PStr (cps ''Ana'')),
               (PStr (cps ''user_phone''), PStr (cps ''21999990000'')),
               (PStr (cps ''lancamento''), PStr (cps ''Wind Oceanica'')),
               (PStr (cps ''visit_interest''), PBool False),
               (PStr (cps ''summary''), PStr (cps ''Quer visitar''))]"
  have a: "(captura_lancamento, lancamento_fields) \<in>
             {(captura_lancamento, lancamento_fields), (captura_imovel_geral, imovel_fields)}"
    by simp
  have b: "cps ''visit_interest'' \<in> set lancamento_fields"
    by (simp add: lancamento_fields_def)
  have c: "map_of ?kvs (PStr (cps ''visit_interest'')) = Some (PBool False)"
    by (simp add: cps_simps)
  have d: "\<not> truthy (PBool False)" by simp
  have e: "list_all (\<lambda>h. \<not> missing_or_empty ?kvs h)
             (takeWhile (\<lambda>h. h \<noteq> cps ''visit_interest'') lancamento_fields)"
    by (simp add: lancamento_fields_def missing_or_empty_def cps_simps)
  from falsy_required_field_rejected [OF a b c d, of rt ev sp] e
  show "captura_lancamento rt ev (PDict ?kvs) sp =
       (Response 400
          [(cps ''status'', PInt 400),
           (cps ''error'',
            PStr (cps ''Campo obrigat'' @ [243] @ cps ''rio ausente: visit_interest''))],
        sp)"
    by (auto simp: cps_simps)
qed

text \<open>
  C10 as stated fails when an earlier required field is falsy too: with
  \<open>user_phone = 0\<close> and \<open>summary = ""\<close> the field \<open>summary\<close> is present and falsy,
  and the error names \<open>user_phone\<close>.
\<close>

theorem falsy_field_not_named_counterexample:
  "get_item two_falsy_payload (cps ''summary'') = Inr (PStr [])
   \<and> \<not> truthy (PStr [])
   \<and> captura_imovel_geral sample_runtime sample_env two_falsy_payload sample_sheet =
       (Response 400
          [(cps ''status'', PInt 400),
           (cps ''error'',
            PStr (cps ''Campo obrigat'' @ [243] @ cps ''rio ausente: user_phone''))],
        sample_sheet)
   \<and> cps ''Campo obrigat'' @ [243] @ cps ''rio ausente: user_phone''
       \<noteq> cps ''Campo obrigat'' @ [243] @ cps ''rio ausente: summary''"
proof -
  obtain kvs where k: "two_falsy_payload = PDict kvs"
    and f: "find (missing_or_empty kvs) imovel_fields = Some (cps ''user_phone'')"
    by (simp add: two_falsy_payload_def imovel_fields_def missing_or_empty_def cps_simps)
  have "captura_imovel_geral sample_runtime sample_env two_falsy_payload sample_sheet =
      (client_error (missing_field_msg (cps ''user_phone'')), sample_sheet)"
    unfolding k by (rule captura_imovel_geral_missing [OF f])
  moreover have "get_item two_falsy_payload (cps ''summary'') = Inr (PStr [])"
    by (simp add: two_falsy_payload_def cps_simps)
  ultimately show ?thesis
    by (simp add: client_error_def missing_field_msg_def cps_simps)
qed

section \<open>Aggregation: the response of the read endpoint\<close>

text \<open>\<open>floor_log2\<close> is the binary exponent: \<open>q\<close> lies in its binade.\<close>

lemma floor_pos_bounds:
  fixes q :: rat
  assumes "1 \<le> q"
  shows "2 ^ nat (bitlen \<lfloor>q\<rfloor> - 1) \<le> q \<and> q < 2 ^ nat (bitlen \<lfloor>q\<rfloor>)"
proof -
  have pos: "0 < \<lfloor>q\<rfloor>" using assms by linarith
  from bitlen_bounds [OF pos]
  have a: "2 ^ nat (bitlen \<lfloor>q\<rfloor> - 1) \<le> \<lfloor>q\<rfloor>" and b: "\<lfloor>q\<rfloor> < 2 ^ nat (bitlen \<lfloor>q\<rfloor>)"
    by auto
  have "(2::rat) ^ nat (bitlen \<lfloor>q\<rfloor> - 1) = of_int (2 ^ nat (bitlen \<lfloor>q\<rfloor> - 1))" by simp
  also have "\<dots> \<le> of_int \<lfloor>q\<rfloor>" using a by (simp only: of_int_le_iff)
  also have "\<dots> \<le> q" by simp
  finally have lo: "2 ^ nat (bitlen \<lfloor>q\<rfloor> - 1) \<le> q" .
  from b have "\<lfloor>q\<rfloor> + 1 \<le> 2 ^ nat (bitlen \<lfloor>q\<rfloor>)" by simp
  then have "of_int (\<lfloor>q\<rfloor> + 1) \<le> (of_int (2 ^ nat (bitlen \<lfloor>q\<rfloor>)) :: rat)"
    by (simp only: of_int_le_iff)
  moreover have "q < of_int (\<lfloor>q\<rfloor> + 1)" by linarith
  ultimately have "q < 2 ^ nat (bitlen \<lfloor>q\<rfloor>)" by simp
  with lo show ?thesis by simp
qed

lemma floor_log2_bounds:
  assumes "0 < q"
  shows "pow2 (floor_log2 q) \<le> q \<and> q < pow2 (floor_log2 q + 1)"
proof (cases "1 \<le> q")
  case True
  have pos: "0 < \<lfloor>q\<rfloor>" using True by linarith
  then have "1 \<le> bitlen \<lfloor>q\<rfloor>"
    using bitlen_eq_zero_iff [of "\<lfloor>q\<rfloor>"] bitlen_nonneg [of "\<lfloor>q\<rfloor>"] by linarith
  then have "nat (bitlen \<lfloor>q\<rfloor> - 1 + 1) = nat (bitlen \<lfloor>q\<rfloor>)" "0 \<le> bitlen \<lfloor>q\<rfloor> - 1"
    by simp_all
  with True floor_pos_bounds [OF True] show ?thesis
    by (simp add: floor_log2_def pow2_def)
next
  case False
  define r where "r = 1 / q"
  define j where "j = bitlen \<lfloor>r\<rfloor> - 1"
  have r1: "1 < r" using False assms by (simp add: r_def)
  then have r1': "1 \<le> r" by simp
  have pos: "0 < \<lfloor>r\<rfloor>" using r1 by linarith
  then have j0: "0 \<le> j"
    using bitlen_eq_zero_iff [of "\<lfloor>r\<rfloor>"] bitlen_nonneg [of "\<lfloor>r\<rfloor>"] unfolding j_def by linarith
  have b: "2 ^ nat j \<le> r" "r < 2 ^ nat (j + 1)"
    using floor_pos_bounds [OF r1'] j0 unfolding j_def by simp_all
  have q: "q = 1 / r" using assms by (simp add: r_def)
  have fl: "floor_log2 q = (if r = 2 ^ nat j then - j else - j - 1)"
    using False by (simp add: floor_log2_def r_def j_def Let_def)
  show ?thesis
  proof (cases "r = 2 ^ nat j")
    case True
    have "j \<noteq> 0" using True r1 by auto
    with j0 have jp: "0 < j" by simp
    have "q = 1 / 2 ^ nat j" using q True by simp
    moreover have "(1::rat) / 2 ^ nat j < 1 / 2 ^ nat (j - 1)"
      using jp by (simp add: field_simps power_strict_increasing)
    moreover have "pow2 (- j) = 1 / 2 ^ nat j" "pow2 (- j + 1) = 1 / 2 ^ nat (j - 1)"
      using jp by (auto simp: pow2_def)
    ultimately show ?thesis using fl True by simp
  next
    case F: False
    with b have lt: "2 ^ nat j < r" by simp
    have "pow2 (- j - 1) = 1 / 2 ^ nat (j + 1)"
      using j0 by (simp add: pow2_def)
    moreover have "pow2 (- j - 1 + 1) = 1 / 2 ^ nat j"
      using j0 by (auto simp: pow2_def)
    moreover have "1 / 2 ^ nat (j + 1) \<le> 1 / r"
      using b(2) r1 by (simp add: field_simps)
    moreover have "1 / r < 1 / 2 ^ nat j"
      using lt r1 by (simp add: field_simps)
    ultimately show ?thesis using fl F q by simp
  qed
qed

text \<open>
  Values of the float model: the double nearest to one tenth, and two rates. For 23 of 40
  the exact value is 57.5, but the product computed in doubles lies below it.
\<close>

lemma f64_one_tenth: "f64 (1 / 10) = 3602879701896397 / 36028797018963968"
  by code_simp

lemma taxa_2_3: "taxa_interesse 2 3 = 67"
  by code_simp

lemma spec_rate_2_3: "spec_interest_rate 2 3 = f64 (667 / 10)"
  by code_simp

lemma spec_rate_2_3_ne: "of_int (taxa_interesse 2 3) \<noteq> spec_interest_rate 2 3"
  by code_simp

lemma taxa_23_40: "taxa_interesse 23 40 = 57"
  by code_simp

text \<open>
  The response of \<open>dados_dashboard\<close> on records: the full view when \<open>jsonify\<close> can
  sort the keys of \<open>tipos_imovel\<close>, the response of the \<open>except\<close> clause otherwise.
\<close>

lemma count_if_length: "count_if P xs = int (length (filter P xs))"
  by (simp add: count_if_def sum_list_triv)

lemma json_sortable_cell: "json_sortable (cell_val c)"
  by (cases c) simp_all

lemma json_sortable_lead: "json_sortable (lead_val r)"
proof -
  have "list_all is_text (map fst (map (\<lambda>(k, c). (PStr k, cell_val c)) r))"
    by (induction r) auto
  moreover have "list_all json_sortable (map snd (map (\<lambda>(k, c). (PStr k, cell_val c)) r))"
    by (induction r) (auto simp: json_sortable_cell)
  ultimately show ?thesis
    by (simp add: lead_val_def keys_sortable_def)
qed

lemma json_sortable_counts:
  "json_sortable (PDict (map (\<lambda>(k, n). (k, PInt n)) tipos)) = keys_sortable (map fst tipos)"
proof -
  have a: "map fst (map (\<lambda>(k, n). (k, PInt n)) tipos) = map fst tipos"
    by (induction tipos) auto
  have b: "list_all json_sortable (map snd (map (\<lambda>(k, n). (k, PInt n)) tipos))"
    by (induction tipos) auto
  show ?thesis
    unfolding json_sortable.simps a using b by simp
qed

lemma dados_nonempty_cases:
  assumes "data \<noteq> []"
  shows "dados_dashboard rt now (Records data) =
     (if keys_sortable (map fst (tipos_count data)) then
        Response 200
          [(cps ''status'', PInt 200),
           (cps ''total_leads'', PInt (int (length data))),
           (cps ''interesse_visita'', PInt (count_if (interested rt) data)),
           (cps ''taxa_interesse'',
            PInt (taxa_interesse (count_if (interested rt) data) (int (length data)))),
           (cps ''wind_oceanica'', PInt (campaign_count (cps ''Wind Oceanica'') data)),
           (cps ''tresor_camboinhas'', PInt (campaign_count (cps ''Tresor Camboinhas'') data)),
           (cps ''tipos_imovel'', PDict (map (\<lambda>(k, n). (k, PInt n)) (tipos_count data))),
           (cps ''dados'', PList (map lead_val data)),
           (cps ''ultima_atualizacao'', PStr (format_timestamp now))]
      else server_error (exn_msg rt TypeError))"
proof -
  have "list_all json_sortable (map lead_val data)"
    by (simp add: list_all_iff json_sortable_lead)
  with assms show ?thesis
    by (simp add: dados_dashboard_def Let_def jsonify_def json_sortable_counts
        del: json_sortable.simps(2))
qed

lemma status_200_iff:
  assumes "data \<noteq> []"
  shows "status (dados_dashboard rt now (Records data)) = 200
     \<longleftrightarrow> keys_sortable (map fst (tipos_count data))"
  by (simp add: dados_nonempty_cases [OF assms] status_simps)

lemma dados_nonempty:
  assumes "data \<noteq> []" and "status (dados_dashboard rt now (Records data)) = 200"
  shows "dados_dashboard rt now' (Records data) =
     Response 200
       [(cps ''status'', PInt 200),
        (cps ''total_leads'', PInt (int (length data))),
        (cps ''interesse_visita'', PInt (count_if (interested rt) data)),
        (cps ''taxa_interesse'',
         PInt (taxa_interesse (count_if (interested rt) data) (int (length data)))),
        (cps ''wind_oceanica'', PInt (campaign_count (cps ''Wind Oceanica'') data)),
        (cps ''tresor_camboinhas'', PInt (campaign_count (cps ''Tresor Camboinhas'') data)),
        (cps ''tipos_imovel'', PDict (map (\<lambda>(k, n). (k, PInt n)) (tipos_count data))),
        (cps ''dados'', PList (map lead_val data)),
        (cps ''ultima_atualizacao'', PStr (format_timestamp now'))]"
  using assms(2) status_200_iff [OF assms(1), of rt now]
  by (simp add: dados_nonempty_cases [OF assms(1)])

lemma dados_empty:
  "dados_dashboard rt now (Records []) =
     Response 200
       [(cps ''status'', PInt 200), (cps ''total_leads'', PInt 0), (cps ''dados'', PList [])]"
  by (simp add: dados_dashboard_def jsonify_def)

lemma lookup_nonempty:
  assumes "data \<noteq> []" and "status (dados_dashboard rt now (Records data)) = 200"
  shows "lookup (body (dados_dashboard rt now (Records data))) (cps ''interesse_visita'')
           = Some (PInt (count_if (interested rt) data))"
    and "lookup (body (dados_dashboard rt now (Records data))) (cps ''taxa_interesse'')
           = Some (PInt (taxa_interesse (count_if (interested rt) data) (int (length data))))"
    and "lookup (body (dados_dashboard rt now (Records data))) (cps ''wind_oceanica'')
           = Some (PInt (campaign_count (cps ''Wind Oceanica'') data))"
    and "lookup (body (dados_dashboard rt now (Records data))) (cps ''tresor_camboinhas'')
           = Some (PInt (campaign_count (cps ''Tresor Camboinhas'') data))"
    and "lookup (body (dados_dashboard rt now (Records data))) (cps ''ultima_atualizacao'')
           = Some (PStr (format_timestamp now))"
  by (simp_all add: dados_nonempty [OF assms] lookup_def cps_simps)

lemma lookup_empty:
  "lookup (body (dados_dashboard rt now (Records []))) (cps ''interesse_visita'') = None"
  "lookup (body (dados_dashboard rt now (Records []))) (cps ''taxa_interesse'') = None"
  "lookup (body (dados_dashboard rt now (Records []))) (cps ''wind_oceanica'') = None"
  "lookup (body (dados_dashboard rt now (Records []))) (cps ''tresor_camboinhas'') = None"
  "lookup (body (dados_dashboard rt now (Records []))) (cps ''tipos_imovel'') = None"
  by (simp_all add: dados_empty lookup_def cps_simps)

lemma lookup_unsortable:
  assumes "data \<noteq> []" and "\<not> keys_sortable (map fst (tipos_count data))"
  shows "dados_dashboard rt now (Records data) = server_error (exn_msg rt TypeError)"
    and "lookup (body (dados_dashboard rt now (Records data))) (cps ''taxa_interesse'') = None"
    and "lookup (body (dados_dashboard rt now (Records data))) (cps ''wind_oceanica'') = None"
    and "lookup (body (dados_dashboard rt now (Records data))) (cps ''tresor_camboinhas'') = None"
  using assms(2)
  by (simp_all add: dados_nonempty_cases [OF assms(1)] server_error_def lookup_def cps_simps)

text \<open>The keys of \<open>tipos_count\<close> are property types of the records.\<close>

lemma bump_keys: "set (map fst (bump acc k)) \<subseteq> insert k (set (map fst acc))"
  by (induction acc k rule: bump.induct) auto

lemma foldl_bump_keys:
  "set (map fst (foldl (\<lambda>acc r. bump acc (f r)) acc data))
     \<subseteq> set (map fst acc) \<union> set (map f data)"
proof (induction data arbitrary: acc)
  case Nil
  then show ?case by simp
next
  case (Cons r data)
  show ?case
    using Cons.IH [of "bump acc (f r)"] bump_keys [of acc "f r"] by auto
qed

lemma text_types_sortable:
  assumes "list_all (\<lambda>r. is_text (row_get r key_tipo (PStr Outros))) data"
  shows "keys_sortable (map fst (tipos_count data))"
proof -
  have "set (map fst (tipos_count data)) \<subseteq> set (map (\<lambda>r. row_get r key_tipo (PStr Outros)) data)"
    using foldl_bump_keys [of "\<lambda>r. row_get r key_tipo (PStr Outros)" "[]" data]
    by (simp add: tipos_count_def)
  with assms have "list_all is_text (map fst (tipos_count data))"
    unfolding list_all_iff by auto
  then show ?thesis by (simp add: keys_sortable_def)
qed

lemma sample_tipo:
  "row_get (sample_lead reference interest tipo) key_tipo d = PStr tipo"
  "row_get (set_tipo v (sample_lead reference interest tipo)) key_tipo d = cell_val v"
  by (simp_all add: sample_lead_def set_tipo_def row_get_def key_tipo_def key_referencia_def
      key_interesse_def cps_simps)

lemma three_leads_nonempty: "three_leads \<noteq> []"
  by (simp add: three_leads_def)

lemma three_leads_ok:
  "status (dados_dashboard rt now (Records three_leads)) = 200"
  unfolding status_200_iff [OF three_leads_nonempty]
  by (rule text_types_sortable) (simp add: three_leads_def sample_tipo)

lemma retyped_nonempty:
  "map2 set_tipo text_types three_leads \<noteq> []" "map2 set_tipo mixed_types three_leads \<noteq> []"
  by (simp_all add: three_leads_def text_types_def mixed_types_def)

lemma text_retyped_ok:
  "status (dados_dashboard rt now (Records (map2 set_tipo text_types three_leads))) = 200"
  unfolding status_200_iff [OF retyped_nonempty(1)]
  by (rule text_types_sortable) (simp add: three_leads_def text_types_def sample_tipo)

lemma mixed_retyped_keys:
  "map fst (tipos_count (map2 set_tipo mixed_types three_leads)) = [PStr Outros, PInt 5, PStr []]"
  by (simp add: tipos_count_def three_leads_def mixed_types_def sample_tipo key_eq_def Outros_def
      cps_simps)

lemma mixed_retyped_unsortable:
  "\<not> keys_sortable (map fst (tipos_count (map2 set_tipo mixed_types three_leads)))"
  unfolding mixed_retyped_keys by (simp add: keys_sortable_def)

lemma mixed_retyped_500:
  "dados_dashboard rt now (Records (map2 set_tipo mixed_types three_leads))
     = server_error (exn_msg rt TypeError)"
  by (rule lookup_unsortable(1) [OF retyped_nonempty(2) mixed_retyped_unsortable])

lemma interested_three: "map (interested sample_runtime) three_leads = [True, False, True]"
  by (simp add: three_leads_def sample_lead_def interested_def row_get_def key_interesse_def
      key_referencia_def key_tipo_def cps_simps py_str_def lower_def is_ascii_def sample_runtime_def)

lemma taxa_unfold:
  "0 < n \<Longrightarrow> taxa_interesse i n = round_half_even (f64 (f64 (of_int i / of_int n) * 100))"
  by (simp add: taxa_interesse_def fmul_def truediv_def)

lemma three_leads_interested:
  "filter (interested sample_runtime) three_leads =
     [sample_lead (cps ''Wind Oceanica'') (cps ''Sim'') Lancamento,
      sample_lead (cps ''CA123'') (cps ''Sim'') Casa]"
  using interested_three by (simp add: three_leads_def)

lemma rate_2_3: "round_half_even (f64 (f64 (2 / 3) * 100)) = 67"
  by code_simp

lemma three_leads_count: "count_if (interested sample_runtime) three_leads = 2"
  by (simp add: count_if_length three_leads_interested)

lemma three_leads_length: "int (length three_leads) = 3"
  by (simp add: three_leads_def)

lemma key_referencia_ne_tipo: "key_referencia \<noteq> key_tipo"
  by (simp add: key_referencia_def key_tipo_def cps_simps)

lemma map_of_set_tipo: "k \<noteq> key_tipo \<Longrightarrow> map_of (set_tipo v r) k = map_of r k"
  by (induction r) (auto simp: set_tipo_def)

lemma row_get_set_tipo:
  "row_get (set_tipo v r) key_referencia d = row_get r key_referencia d"
  by (simp add: row_get_def map_of_set_tipo key_referencia_ne_tipo)

lemma campaign_count_retyped:
  "length vs = length data \<Longrightarrow>
   campaign_count name (map2 set_tipo vs data) = campaign_count name data"
  by (induction vs data rule: list_induct2)
    (simp_all add: campaign_count_def count_if_def row_get_set_tipo)

lemma campaign_count_eq:
  "campaign_count name data
     = int (length (filter (\<lambda>r. map_of r key_referencia = Some (CStr name)) data))"
proof -
  have "(\<lambda>r. row_get r key_referencia PNone = PStr name)
      = (\<lambda>r. map_of r key_referencia = Some (CStr name))"
  proof
    fix r :: lead
    show "(row_get r key_referencia PNone = PStr name)
        = (map_of r key_referencia = Some (CStr name))"
    proof (cases "map_of r key_referencia")
      case None
      then show ?thesis by (simp add: row_get_def)
    next
      case (Some c)
      then show ?thesis by (cases c) (simp_all add: row_get_def)
    qed
  qed
  then show ?thesis
    by (simp add: campaign_count_def count_if_length)
qed

lemma three_leads_wind:
  "filter (\<lambda>r. map_of r key_referencia = Some (CStr (cps ''Wind Oceanica''))) three_leads
     = [sample_lead (cps ''Wind Oceanica'') (cps ''Sim'') Lancamento]"
  by (simp add: three_leads_def sample_lead_def key_referencia_def key_interesse_def key_tipo_def
      cps_simps)

lemma three_leads_tresor:
  "filter (\<lambda>r. map_of r key_referencia = Some (CStr (cps ''Tresor Camboinhas''))) three_leads
     = []"
  by (simp add: three_leads_def sample_lead_def key_referencia_def key_interesse_def key_tipo_def
      cps_simps)

text \<open>
  C3, as the code has it. For a collection that is not empty and on which the endpoint
  answers 200, \<open>interesse_visita\<close> is the number of records whose \<open>Interesse Visita\<close>,
  as a text in lower case, is \<open>true\<close>, \<open>sim\<close> or \<open>yes\<close>, and \<open>taxa_interesse\<close> is
  \<open>round(interesse_visita / total_leads * 100)\<close>: the quotient and the product are
  computed in doubles, and the result is the nearest integer, ties to even. No decimal is
  kept. (The endpoint answers 500 when the property types of the records mix texts and
  numbers: \<open>status_200_iff\<close>.)
\<close>

theorem interest_rate_rounds_to_integer:
  assumes "data \<noteq> []" and "status (dados_dashboard rt now (Records data)) = 200"
  shows "lookup (body (dados_dashboard rt now (Records data))) (cps ''interesse_visita'')
           = Some (PInt (int (length (filter
               (\<lambda>r. lower rt (py_str rt (row_get r (cps ''Interesse Visita'') (PStr [])))
                      \<in> {cps ''true'', cps ''sim'', cps ''yes''}) data))))
       \<and> lookup (body (dados_dashboard rt now (Records data))) (cps ''taxa_interesse'')
           = Some (PInt (round_half_even
               (f64 (f64 (of_int (int (length (filter (interested rt) data)))
                          / of_int (int (length data))) * 100))))"
proof -
  have "interested rt = (\<lambda>r. lower rt (py_str rt (row_get r (cps ''Interesse Visita'') (PStr [])))
                      \<in> {cps ''true'', cps ''sim'', cps ''yes''})"
    by (simp add: interested_def key_interesse_def fun_eq_iff)
  moreover have "0 < int (length data)" using assms(1) by simp
  ultimately show ?thesis
    using lookup_nonempty(1,2) [OF assms, of] taxa_unfold [of "int (length data)"]
    by (simp add: count_if_length)
qed

text \<open>Three records, two of them interested: the endpoint answers 200 and the rate is 67.\<close>

theorem interest_rate_rounds_to_integer_witness:
  "status (dados_dashboard sample_runtime sample_clock (Records three_leads)) = 200
   \<and> lookup (body (dados_dashboard sample_runtime sample_clock (Records three_leads)))
      (cps ''taxa_interesse'') = Some (PInt 67)"
  using interest_rate_rounds_to_integer [OF three_leads_nonempty three_leads_ok,
      of sample_runtime sample_clock]
  by (simp add: three_leads_interested three_leads_ok) (simp add: three_leads_def rate_2_3)

text \<open>
  C3 as stated fails on these three records: the endpoint returns 67, and the rate rounded
  to one decimal is the double nearest to 66.7.
\<close>

theorem interest_rate_one_decimal_counterexample:
  "status (dados_dashboard sample_runtime sample_clock (Records three_leads)) = 200
   \<and> lookup (body (dados_dashboard sample_runtime sample_clock (Records three_leads)))
      (cps ''interesse_visita'') = Some (PInt 2)
   \<and> lookup (body (dados_dashboard sample_runtime sample_clock (Records three_leads)))
      (cps ''taxa_interesse'') = Some (PInt (taxa_interesse 2 3))
   \<and> taxa_interesse 2 3 = 67
   \<and> spec_interest_rate 2 3 = f64 (667 / 10)
   \<and> of_int (taxa_interesse 2 3) \<noteq> spec_interest_rate 2 3"
proof (intro conjI)
  show "status (dados_dashboard sample_runtime sample_clock (Records three_leads)) = 200"
    by (rule three_leads_ok)
  show "lookup (body (dados_dashboard sample_runtime sample_clock (Records three_leads)))
      (cps ''interesse_visita'') = Some (PInt 2)"
    unfolding lookup_nonempty(1) [OF three_leads_nonempty three_leads_ok] three_leads_count
    by (rule refl)
  show "lookup (body (dados_dashboard sample_runtime sample_clock (Records three_leads)))
      (cps ''taxa_interesse'') = Some (PInt (taxa_interesse 2 3))"
    unfolding lookup_nonempty(2) [OF three_leads_nonempty three_leads_ok] three_leads_count
      three_leads_length
    by (rule refl)
  show "taxa_interesse 2 3 = 67" by (rule taxa_2_3)
  show "spec_interest_rate 2 3 = f64 (667 / 10)" by (rule spec_rate_2_3)
  show "of_int (taxa_interesse 2 3) \<noteq> spec_interest_rate 2 3" by (rule spec_rate_2_3_ne)
qed

text \<open>
  C4, as the code has it. The response at one reading of the clock is the response at any
  other reading with \<open>ultima_atualizacao\<close> replaced by the formatted reading: the status
  and every other field are the same on both runs.
\<close>

theorem output_differs_only_in_ultima_atualizacao:
  "dados_dashboard rt now got =
     (case dados_dashboard rt now0 got of
        Response st b \<Rightarrow>
          Response st
            (map (\<lambda>(k, v). if k = cps ''ultima_atualizacao''
                            then (k, PStr (format_timestamp now)) else (k, v)) b))
   \<and> [(k, v) \<leftarrow> body (dados_dashboard rt now got). k \<noteq> cps ''ultima_atualizacao'']
     = [(k, v) \<leftarrow> body (dados_dashboard rt now0 got). k \<noteq> cps ''ultima_atualizacao'']"
proof (cases got)
  case NoWorksheet
  then show ?thesis
    by (simp add: dados_dashboard_def server_error_def cps_simps)
next
  case (ReadRaises e)
  then show ?thesis
    by (simp add: dados_dashboard_def server_error_def cps_simps)
next
  case (Records data)
  show ?thesis
  proof (cases "data = []")
    case True
    with Records show ?thesis
      by (simp add: dados_empty cps_simps)
  next
    case False
    show ?thesis
    proof (cases "keys_sortable (map fst (tipos_count data))")
      case True
      with Records False show ?thesis
        by (simp add: dados_nonempty_cases cps_simps)
    next
      case unsortable: False
      with Records False show ?thesis
        by (simp add: dados_nonempty_cases server_error_def cps_simps)
    qed
  qed
qed

text \<open>
  C4 as stated fails: two runs on the same three records, one second apart, give
  responses that differ in \<open>ultima_atualizacao\<close>.
\<close>

theorem idempotence_counterexample:
  "dados_dashboard sample_runtime sample_clock (Records three_leads)
     \<noteq> dados_dashboard sample_runtime later_clock (Records three_leads)
   \<and> lookup (body (dados_dashboard sample_runtime sample_clock (Records three_leads)))
       (cps ''ultima_atualizacao'') = Some (PStr (cps ''02/01/2024 03:04:05''))
   \<and> lookup (body (dados_dashboard sample_runtime later_clock (Records three_leads)))
       (cps ''ultima_atualizacao'') = Some (PStr (cps ''02/01/2024 03:04:06''))"
proof -
  have a: "lookup (body (dados_dashboard sample_runtime sample_clock (Records three_leads)))
       (cps ''ultima_atualizacao'') = Some (PStr (cps ''02/01/2024 03:04:05''))"
    unfolding lookup_nonempty(5) [OF three_leads_nonempty three_leads_ok] sample_timestamp
    by (rule refl)
  have "format_timestamp later_clock = cps ''02/01/2024 03:04:06''"
    by (simp add: format_timestamp_def later_clock_def pad2_def pad4_def cps_simps)
  then have b: "lookup (body (dados_dashboard sample_runtime later_clock (Records three_leads)))
       (cps ''ultima_atualizacao'') = Some (PStr (cps ''02/01/2024 03:04:06''))"
    unfolding lookup_nonempty(5) [OF three_leads_nonempty three_leads_ok] by simp
  have ne: "cps ''02/01/2024 03:04:05'' \<noteq> cps ''02/01/2024 03:04:06''"
    by (simp add: cps_simps)
  have "dados_dashboard sample_runtime sample_clock (Records three_leads)
     \<noteq> dados_dashboard sample_runtime later_clock (Records three_leads)"
  proof
    assume "dados_dashboard sample_runtime sample_clock (Records three_leads)
      = dados_dashboard sample_runtime later_clock (Records three_leads)"
    then have "Some (PStr (cps ''02/01/2024 03:04:05'')) = Some (PStr (cps ''02/01/2024 03:04:06''))"
      using a b by simp
    with ne show False by simp
  qed
  with a b show ?thesis by blast
qed

text \<open>
  C5, as the code has it. On an empty collection the endpoint returns early with the status,
  \<open>total_leads = 0\<close> and an empty \<open>dados\<close>, and nothing else; no division is reached.
\<close>

theorem empty_collection_short_response:
  "dados_dashboard rt now (Records []) =
     Response 200
       [(cps ''status'', PInt 200), (cps ''total_leads'', PInt 0), (cps ''dados'', PList [])]"
  by (rule dados_empty)

text \<open>
  C5 as stated fails: the response for the empty collection has no \<open>taxa_interesse\<close>
  and no \<open>tipos_imovel\<close>.
\<close>

theorem empty_collection_counterexample:
  "lookup (body (dados_dashboard sample_runtime sample_clock (Records []))) (cps ''taxa_interesse'')
     = None
   \<and> lookup (body (dados_dashboard sample_runtime sample_clock (Records []))) (cps ''tipos_imovel'')
     = None
   \<and> lookup (body (dados_dashboard sample_runtime sample_clock (Records []))) (cps ''taxa_interesse'')
     \<noteq> Some (PInt 0)"
  by (simp add: lookup_empty)

text \<open>
  C9, as the code has it. For a collection that is not empty and on which the endpoint
  answers 200, \<open>wind_oceanica\<close> and \<open>tresor_camboinhas\<close> are the numbers of records
  whose reference is the text \<open>Wind Oceanica\<close>, respectively \<open>Tresor Camboinhas\<close>, code
  point by code point; and replacing the property types of the records leaves both counts
  unchanged whenever the endpoint answers 200 on the retyped records too.
\<close>

theorem campaign_counts_by_exact_reference:
  assumes "data \<noteq> []" and "length vs = length data"
    and "status (dados_dashboard rt now (Records data)) = 200"
    and "status (dados_dashboard rt now (Records (map2 set_tipo vs data))) = 200"
  shows "lookup (body (dados_dashboard rt now (Records data))) (cps ''wind_oceanica'')
           = Some (PInt (int (length (filter
               (\<lambda>r. map_of r key_referencia = Some (CStr (cps ''Wind Oceanica''))) data))))
       \<and> lookup (body (dados_dashboard rt now (Records data))) (cps ''tresor_camboinhas'')
           = Some (PInt (int (length (filter
               (\<lambda>r. map_of r key_referencia = Some (CStr (cps ''Tresor Camboinhas''))) data))))
       \<and> lookup (body (dados_dashboard rt now (Records (map2 set_tipo vs data))))
             (cps ''wind_oceanica'')
           = lookup (body (dados_dashboard rt now (Records data))) (cps ''wind_oceanica'')
       \<and> lookup (body (dados_dashboard rt now (Records (map2 set_tipo vs data))))
             (cps ''tresor_camboinhas'')
           = lookup (body (dados_dashboard rt now (Records data))) (cps ''tresor_camboinhas'')"
proof -
  have ne: "map2 set_tipo vs data \<noteq> []"
    using assms(1,2) by (cases vs; cases data) simp_all
  have "lookup (body (dados_dashboard rt now (Records (map2 set_tipo vs data)))) (cps ''wind_oceanica'')
      = Some (PInt (campaign_count (cps ''Wind Oceanica'') data))"
    and "lookup (body (dados_dashboard rt now (Records (map2 set_tipo vs data))))
        (cps ''tresor_camboinhas'')
      = Some (PInt (campaign_count (cps ''Tresor Camboinhas'') data))"
    using lookup_nonempty(3,4) [OF ne assms(4)]
    by (simp_all only: campaign_count_retyped [OF assms(2)])
  then show ?thesis
    using lookup_nonempty(3,4) [OF assms(1,3)]
    by (simp only: campaign_count_eq)
qed

text \<open>
  Of the three records one has the reference \<open>Wind Oceanica\<close>; \<open>wind oceanica\<close> does
  not count; retyping the records with three texts changes nothing.
\<close>

theorem campaign_counts_by_exact_reference_witness:
  "status (dados_dashboard sample_runtime sample_clock (Records three_leads)) = 200
   \<and> status (dados_dashboard sample_runtime sample_clock
        (Records (map2 set_tipo text_types three_leads))) = 200
   \<and> lookup (body (dados_dashboard sample_runtime sample_clock (Records three_leads)))
      (cps ''wind_oceanica'') = Some (PInt 1)
   \<and> lookup (body (dados_dashboard sample_runtime sample_clock (Records three_leads)))
      (cps ''tresor_camboinhas'') = Some (PInt 0)
   \<and> lookup (body (dados_dashboard sample_runtime sample_clock
        (Records (map2 set_tipo text_types three_leads))))
      (cps ''wind_oceanica'') = Some (PInt 1)
   \<and> lookup (body (dados_dashboard sample_runtime sample_clock
        (Records (map2 set_tipo text_types three_leads))))
      (cps ''tresor_camboinhas'') = Some (PInt 0)"
proof -
  have l: "length text_types = length three_leads"
    by (simp add: three_leads_def text_types_def)
  show ?thesis
    using campaign_counts_by_exact_reference [OF three_leads_nonempty l three_leads_ok
        text_retyped_ok, of sample_runtime sample_clock]
    unfolding three_leads_wind three_leads_tresor
    by (simp add: three_leads_ok text_retyped_ok)
qed

text \<open>
  C9 as stated fails twice. On the empty collection the response has neither count. And
  the counts are not independent of the property types: retyping the three records with a
  text, a number and a text makes the endpoint answer 500, with neither count, although one
  record still has the reference \<open>Wind Oceanica\<close>.
\<close>

theorem campaign_counts_counterexample:
  "lookup (body (dados_dashboard sample_runtime sample_clock (Records []))) (cps ''wind_oceanica'')
     = None
   \<and> lookup (body (dados_dashboard sample_runtime sample_clock (Records [])))
       (cps ''tresor_camboinhas'') = None
   \<and> lookup (body (dados_dashboard sample_runtime sample_clock (Records []))) (cps ''wind_oceanica'')
     \<noteq> Some (PInt (int (length (filter
          (\<lambda>r. map_of r key_referencia = Some (CStr (cps ''Wind Oceanica''))) []))))
   \<and> status (dados_dashboard sample_runtime sample_clock
        (Records (map2 set_tipo mixed_types three_leads))) = 500
   \<and> lookup (body (dados_dashboard sample_runtime sample_clock
        (Records (map2 set_tipo mixed_types three_leads)))) (cps ''wind_oceanica'') = None
   \<and> lookup (body (dados_dashboard sample_runtime sample_clock
        (Records (map2 set_tipo mixed_types three_leads)))) (cps ''tresor_camboinhas'') = None
   \<and> length (filter (\<lambda>r. map_of r key_referencia = Some (CStr (cps ''Wind Oceanica'')))
        (map2 set_tipo mixed_types three_leads)) = 1"
proof -
  have "filter (\<lambda>r. map_of r key_referencia = Some (CStr (cps ''Wind Oceanica'')))
        (map2 set_tipo mixed_types three_leads)
      = [set_tipo (CStr Outros) (sample_lead (cps ''Wind Oceanica'') (cps ''Sim'') Lancamento)]"
    by (simp add: three_leads_def mixed_types_def map_of_set_tipo key_referencia_ne_tipo)
      (simp add: sample_lead_def key_referencia_def key_interesse_def key_tipo_def cps_simps)
  moreover have "status (dados_dashboard sample_runtime sample_clock
        (Records (map2 set_tipo mixed_types three_leads))) = 500"
    unfolding mixed_retyped_500 by (rule status_simps)
  ultimately show ?thesis
    by (simp add: lookup_empty
        lookup_unsortable(3,4) [OF retyped_nonempty(2) mixed_retyped_unsortable])
qed

end
